theory Spec2Isabelle
  imports Complex_Main "HOL-Library.Word"
begin

unbundle bit_operations_syntax

section \<open>JavaScript numbers\<close>

text \<open>
  The source computes with JavaScript numbers. A finite number is modelled by the real
  number it denotes (rounding and overflow are not modelled, and there is a single zero);
  the three non-finite values are constructors of their own, because the code under
  study tests for them (\<open>isNaN\<close>, \<open>Number.isFinite\<close>) and comparisons with \<open>NaN\<close>
  are false.
\<close>

datatype jsnum = Num real | PInf | NInf | NaN

fun isNaN :: "jsnum \<Rightarrow> bool" where
  "isNaN NaN = True"
| "isNaN _ = False"

fun js_lt :: "jsnum \<Rightarrow> jsnum \<Rightarrow> bool" where
  "js_lt NaN _ = False"
| "js_lt _ NaN = False"
| "js_lt (Num a) (Num b) = (a < b)"
| "js_lt (Num a) PInf = True"
| "js_lt (Num a) NInf = False"
| "js_lt PInf _ = False"
| "js_lt NInf NInf = False"
| "js_lt NInf _ = True"

definition js_gt :: "jsnum \<Rightarrow> jsnum \<Rightarrow> bool" where
  "js_gt a b = js_lt b a"

fun js_neg :: "jsnum \<Rightarrow> jsnum" where
  "js_neg (Num a) = Num (- a)"
| "js_neg PInf = NInf"
| "js_neg NInf = PInf"
| "js_neg NaN = NaN"

fun js_add :: "jsnum \<Rightarrow> jsnum \<Rightarrow> jsnum" where
  "js_add NaN _ = NaN"
| "js_add _ NaN = NaN"
| "js_add (Num a) (Num b) = Num (a + b)"
| "js_add PInf NInf = NaN"
| "js_add NInf PInf = NaN"
| "js_add PInf _ = PInf"
| "js_add _ PInf = PInf"
| "js_add NInf _ = NInf"
| "js_add _ NInf = NInf"

definition js_sub :: "jsnum \<Rightarrow> jsnum \<Rightarrow> jsnum" where
  "js_sub a b = js_add a (js_neg b)"

text \<open>The sign of an infinite product or quotient follows the sign of the finite operand.\<close>

definition signed_inf :: "bool \<Rightarrow> jsnum" where
  "signed_inf negative = (if negative then NInf else PInf)"

fun js_mul :: "jsnum \<Rightarrow> jsnum \<Rightarrow> jsnum" where
  "js_mul NaN _ = NaN"
| "js_mul _ NaN = NaN"
| "js_mul (Num a) (Num b) = Num (a * b)"
| "js_mul (Num a) PInf = (if a = 0 then NaN else signed_inf (a < 0))"
| "js_mul (Num a) NInf = (if a = 0 then NaN else signed_inf (0 < a))"
| "js_mul PInf (Num b) = (if b = 0 then NaN else signed_inf (b < 0))"
| "js_mul NInf (Num b) = (if b = 0 then NaN else signed_inf (0 < b))"
| "js_mul PInf PInf = PInf"
| "js_mul PInf NInf = NInf"
| "js_mul NInf PInf = NInf"
| "js_mul NInf NInf = PInf"

text \<open>
  Division: a finite number over zero is infinite with the sign of the numerator (the one
  zero of the model is the positive one), zero over zero and infinity over infinity are
  \<open>NaN\<close>.
\<close>

fun js_div :: "jsnum \<Rightarrow> jsnum \<Rightarrow> jsnum" where
  "js_div NaN _ = NaN"
| "js_div _ NaN = NaN"
| "js_div (Num a) (Num b) =
     (if b = 0 then (if a = 0 then NaN else signed_inf (a < 0)) else Num (a / b))"
| "js_div (Num a) PInf = Num 0"
| "js_div (Num a) NInf = Num 0"
| "js_div PInf (Num b) = signed_inf (b < 0)"
| "js_div NInf (Num b) = signed_inf (\<not> b < 0)"
| "js_div PInf _ = NaN"
| "js_div NInf _ = NaN"

fun js_abs :: "jsnum \<Rightarrow> jsnum" where
  "js_abs (Num a) = Num \<bar>a\<bar>"
| "js_abs PInf = PInf"
| "js_abs NInf = PInf"
| "js_abs NaN = NaN"

text \<open>A number in a condition: zero and \<open>NaN\<close> are falsy.\<close>

fun truthy :: "jsnum \<Rightarrow> bool" where
  "truthy (Num a) = (a \<noteq> 0)"
| "truthy NaN = False"
| "truthy _ = True"

text \<open>\<open>undefined\<close> (here \<open>None\<close>) in an arithmetic position converts to \<open>NaN\<close>.\<close>

fun to_number :: "jsnum option \<Rightarrow> jsnum" where
  "to_number None = NaN"
| "to_number (Some v) = v"

section \<open>Outlier flagging: two-in-three\<close>

text \<open>
  \<open>twoInThree(val, ll, ul, highlightSeries)\<close> of the inline worker script
  (Workers/CalculationWorkerManager.ts). A limit array may be absent (\<open>None\<close>), an
  entry may be \<open>null\<close> (\<open>Some None\<close>), and an index beyond the array reads
  \<open>undefined\<close>, against which every comparison is false.
\<close>

type_synonym limits = "jsnum option list option"

definition below_limit :: "limits \<Rightarrow> jsnum list \<Rightarrow> nat \<Rightarrow> int" where
  "below_limit ll val i =
     (case ll of None \<Rightarrow> 0
      | Some l \<Rightarrow>
          if i < length l then
            (case l ! i of None \<Rightarrow> 0 | Some b \<Rightarrow> if js_lt (val ! i) b then 1 else 0)
          else 0)"

definition above_limit :: "limits \<Rightarrow> jsnum list \<Rightarrow> nat \<Rightarrow> int" where
  "above_limit ul val i =
     (case ul of None \<Rightarrow> 0
      | Some u \<Rightarrow>
          if i < length u then
            (case u ! i of None \<Rightarrow> 0 | Some b \<Rightarrow> if js_gt (val ! i) b then 1 else 0)
          else 0)"

text \<open>The running sums over a window of width 3: one loop, two accumulators.\<close>

definition window_step ::
  "int list \<Rightarrow> int list \<Rightarrow> nat \<Rightarrow> (int \<times> int) \<times> int list \<times> int list
     \<Rightarrow> (int \<times> int) \<times> int list \<times> int list" where
  "window_step lower_flag upper_flag i st =
     (case st of ((lw, uw), lower_sum, upper_sum) \<Rightarrow>
        let lw1 = lw + lower_flag ! i;
            uw1 = uw + upper_flag ! i;
            lw2 = (if 3 \<le> i then lw1 - lower_flag ! (i - 3) else lw1);
            uw2 = (if 3 \<le> i then uw1 - upper_flag ! (i - 3) else uw1)
        in ((lw2, uw2), lower_sum @ [lw2], upper_sum @ [uw2]))"

definition window_sums :: "int list \<Rightarrow> int list \<Rightarrow> int list \<times> int list" where
  "window_sums lower_flag upper_flag =
     snd (fold (window_step lower_flag upper_flag) [0..<length lower_flag] ((0, 0), [], []))"

definition classify :: "int \<Rightarrow> int \<Rightarrow> string" where
  "classify ls us = (if 2 \<le> ls then ''lower'' else if 2 \<le> us then ''upper'' else ''none'')"

text \<open>
  The backfill pass: a flagged point copies its flag onto the two points before it, in
  place and in index order, so a later trigger overwrites an earlier one.
\<close>

definition backfill_step :: "nat \<Rightarrow> string list \<Rightarrow> string list" where
  "backfill_step i detected =
     (if detected ! i \<noteq> ''none'' then
        let d1 = (if 1 \<le> i then detected[i - 1 := detected ! i] else detected);
            d2 = (if 2 \<le> i then d1[i - 2 := d1 ! i] else d1)
        in d2
      else detected)"

definition backfill :: "string list \<Rightarrow> string list" where
  "backfill detected = fold backfill_step [0..<length detected] detected"

definition twoInThree :: "jsnum list \<Rightarrow> limits \<Rightarrow> limits \<Rightarrow> bool \<Rightarrow> string list" where
  "twoInThree val ll ul highlightSeries =
     (let len = length val in
      if len = 0 then []
      else
        let lower_flag = map (below_limit ll val) [0..<len];
            upper_flag = map (above_limit ul val) [0..<len];
            (lower_sum, upper_sum) = window_sums lower_flag upper_flag;
            detected = map (\<lambda>i. classify (lower_sum ! i) (upper_sum ! i)) [0..<len]
        in if highlightSeries then backfill detected else detected)"

text \<open>
  The three-argument \<open>twoInThree(val, ll95, ul95)\<close> of the outlier-flagging module: one
  signed indicator per point, re-summed over the last three points, and an unconditional
  backfill. Its inner loop writes at \<open>i - 1\<close> and \<open>i - 2\<close> without a bound check; a
  negative index on a JavaScript array sets a property and leaves the elements alone.
\<close>

definition outside95 :: "jsnum list \<Rightarrow> jsnum list \<Rightarrow> jsnum list \<Rightarrow> nat \<Rightarrow> int" where
  "outside95 val ll95 ul95 i =
     (if i < length ul95 \<and> js_gt (val ! i) (ul95 ! i) then 1
      else if i < length ll95 \<and> js_lt (val ! i) (ll95 ! i) then - 1 else 0)"

definition two_in_three :: "jsnum list \<Rightarrow> jsnum list \<Rightarrow> jsnum list \<Rightarrow> string list" where
  "two_in_three val ll95 ul95 =
     (let flags = map (outside95 val ll95 ul95) [0..<length val];
          lagged_sign_sum = map (\<lambda>i. sum_list (take (i + 1 - (i - 2)) (drop (i - 2) flags)))
                                [0..<length val];
          detected = map (\<lambda>d. if 2 \<le> \<bar>d\<bar> then (if 2 \<le> d then ''upper'' else ''lower'')
                                 else ''none'') lagged_sign_sum
      in backfill detected)"

section \<open>Limit calculation: the i chart\<close>

subsection \<open>Helpers\<close>

text \<open>
  \<open>mean\<close> of the d3 library, which Limit Calculations/i.ts calls: values that are
  \<open>NaN\<close> are skipped, the others are summed from 0 and divided by their count, and with
  no value left the result is \<open>undefined\<close>.
\<close>

definition d3_mean :: "jsnum list \<Rightarrow> jsnum option" where
  "d3_mean vs =
     (let valid = filter (\<lambda>v. \<not> isNaN v) vs in
      if length valid = 0 then None
      else Some (js_div (foldl js_add (Num 0) valid) (Num (real (length valid)))))"

text \<open>\<open>mean\<close> of the inline worker script: 0 on the empty array, else sum over length.\<close>

definition mean :: "jsnum list \<Rightarrow> jsnum" where
  "mean arr =
     (if length arr = 0 then Num 0
      else js_div (foldl js_add (Num 0) arr) (Num (real (length arr))))"

text \<open>
  Modelled from the spec: Functions/diff, the \<open>abs\<close> of Functions/UnaryFunctions and
  Functions/rep, which i.ts imports, are not among the sources. The "consecutive absolute
  differences" and the "broadcast as constant values across every point" of the
  specification are taken as the copies inlined in the worker script have them.
\<close>

fun diff :: "jsnum list \<Rightarrow> jsnum list" where
  "diff (a # b # rest) = js_sub b a # diff (b # rest)"
| "diff _ = []"

definition abs_arr :: "jsnum list \<Rightarrow> jsnum list" where
  "abs_arr arr = map js_abs arr"

definition rep :: "'a \<Rightarrow> nat \<Rightarrow> 'a list" where
  "rep v n = replicate n v"

text \<open>
  \<open>divide\<close> of the worker script: the quotient where the denominator is there and
  truthy, the numerator itself otherwise (zero, \<open>NaN\<close> or a missing denominator).
\<close>

definition divide :: "jsnum list \<Rightarrow> jsnum list option \<Rightarrow> jsnum list" where
  "divide nums dens =
     map (\<lambda>i. case dens of
                 None \<Rightarrow> nums ! i
               | Some d \<Rightarrow> if i < length d \<and> truthy (d ! i) then js_div (nums ! i) (d ! i)
                           else nums ! i)
         [0..<length nums]"

definition extractValues :: "'a list \<Rightarrow> nat list option \<Rightarrow> 'a list" where
  "extractValues arr indices =
     (case indices of
        None \<Rightarrow> arr
      | Some ix \<Rightarrow> if length ix = 0 then arr
                  else map (\<lambda>i. arr ! i) (filter (\<lambda>i. i \<in> set ix) [0..<length arr]))"

subsection \<open>Data\<close>

record key =
  x :: nat
  id :: nat
  label :: string

record dataClass =
  keys :: "key list"
  numerators :: "jsnum list"
  denominators :: "jsnum list option"

text \<open>\<open>outliers_in_limits\<close> is \<open>args.inputSettings.spc.outliers_in_limits\<close>.\<close>

record LimitArgs =
  inputData :: dataClass
  outliers_in_limits :: bool

text \<open>
  The object built by the constructor of Classes/controlLimitsClass.ts: the limits as given
  and the four flag arrays initialised to "none".
\<close>

record controlLimitsClass =
  cl_keys :: "key list"
  cl_values :: "jsnum list"
  cl_numerators :: "jsnum list option"
  cl_denominators :: "jsnum list option"
  targets :: "jsnum option list"
  ll99 :: "jsnum list"
  ll95 :: "jsnum list"
  ul95 :: "jsnum list"
  ul99 :: "jsnum list"
  astpoint :: "string list"
  trend :: "string list"
  two_in_three_flags :: "string list"
  shift :: "string list"

definition new_controlLimitsClass ::
  "key list \<Rightarrow> jsnum list \<Rightarrow> jsnum list option \<Rightarrow> jsnum list option \<Rightarrow> jsnum option list
     \<Rightarrow> jsnum list \<Rightarrow> jsnum list \<Rightarrow> jsnum list \<Rightarrow> jsnum list \<Rightarrow> controlLimitsClass" where
  "new_controlLimitsClass ks vs nums dens tg l99 l95 u95 u99 =
     \<lparr>cl_keys = ks, cl_values = vs, cl_numerators = nums, cl_denominators = dens,
      targets = tg, ll99 = l99, ll95 = l95, ul95 = u95, ul99 = u99,
      astpoint = rep ''none'' (length vs), trend = rep ''none'' (length vs),
      two_in_three_flags = rep ''none'' (length vs), shift = rep ''none'' (length vs)\<rparr>"

subsection \<open>\<open>iLimits\<close> of Limit Calculations/i.ts\<close>

text \<open>
  The \<open>divide\<close> of Functions/BinaryFunctions is not among the sources; it is the
  parameter \<open>dv\<close>.
\<close>

definition useRatio :: "jsnum list option \<Rightarrow> bool" where
  "useRatio dens = (case dens of None \<Rightarrow> False | Some d \<Rightarrow> 0 < length d)"

definition ratio_of :: "(jsnum list \<Rightarrow> jsnum list \<Rightarrow> jsnum list) \<Rightarrow> dataClass \<Rightarrow> jsnum list" where
  "ratio_of dv d =
     (case denominators d of
        None \<Rightarrow> numerators d
      | Some dens \<Rightarrow> if 0 < length dens then dv (numerators d) dens else numerators d)"

definition sigma_of :: "jsnum list \<Rightarrow> bool \<Rightarrow> jsnum" where
  "sigma_of ratio oil =
     (let consec_diff = abs_arr (diff ratio);
          consec_diff_ulim = js_mul (to_number (d3_mean consec_diff)) (Num (3267 / 1000));
          consec_diff_valid =
            (if oil then consec_diff else filter (\<lambda>d. js_lt d consec_diff_ulim) consec_diff)
      in js_div (to_number (d3_mean consec_diff_valid)) (Num (1128 / 1000)))"

definition iLimits :: "(jsnum list \<Rightarrow> jsnum list \<Rightarrow> jsnum list) \<Rightarrow> LimitArgs \<Rightarrow> controlLimitsClass" where
  "iLimits dv args =
     (let d = inputData args;
          ratio = ratio_of dv d;
          cl = d3_mean ratio;
          sigma = sigma_of ratio (outliers_in_limits args);
          n = length (keys d)
      in new_controlLimitsClass (keys d)
           (map (\<lambda>v. if isNaN v then Num 0 else v) ratio)
           (if useRatio (denominators d) then Some (numerators d) else None)
           (if useRatio (denominators d) then denominators d else None)
           (rep cl n)
           (rep (js_sub (to_number cl) (js_mul (Num 3) sigma)) n)
           (rep (js_sub (to_number cl) (js_mul (Num 2) sigma)) n)
           (rep (js_add (to_number cl) (js_mul (Num 2) sigma)) n)
           (rep (js_add (to_number cl) (js_mul (Num 3) sigma)) n))"

subsection \<open>\<open>iLimits\<close> of the inline worker script\<close>

record controlLimitsArgs =
  a_keys :: "key list"
  a_numerators :: "jsnum list"
  a_denominators :: "jsnum list option"
  xbar_sds :: "jsnum list option"
  a_outliers_in_limits :: bool
  subset_points :: "nat list option"

record controlLimitsObject =
  o_keys :: "key list"
  o_values :: "jsnum list"
  o_numerators :: "jsnum list option"
  o_denominators :: "jsnum list option"
  o_targets :: "jsnum list"
  o_ll99 :: "jsnum list"
  o_ll95 :: "jsnum list"
  o_ll68 :: "jsnum list"
  o_ul68 :: "jsnum list"
  o_ul95 :: "jsnum list"
  o_ul99 :: "jsnum list"

definition worker_ratio :: "controlLimitsArgs \<Rightarrow> jsnum list" where
  "worker_ratio args =
     (if useRatio (a_denominators args) then divide (a_numerators args) (a_denominators args)
      else a_numerators args)"

definition worker_sigma :: "jsnum list \<Rightarrow> bool \<Rightarrow> jsnum" where
  "worker_sigma ratio_subset oil =
     (let consec_diff = abs_arr (diff ratio_subset);
          consec_diff_ulim = js_mul (mean consec_diff) (Num (3267 / 1000));
          consec_diff_valid =
            (if oil then consec_diff else filter (\<lambda>d. js_lt d consec_diff_ulim) consec_diff)
      in js_div (mean consec_diff_valid) (Num (1128 / 1000)))"

definition worker_iLimits :: "controlLimitsArgs \<Rightarrow> controlLimitsObject" where
  "worker_iLimits args =
     (let ratio = worker_ratio args;
          ratio_subset = extractValues ratio (subset_points args);
          cl = mean ratio_subset;
          sigma = worker_sigma ratio_subset (a_outliers_in_limits args);
          n = length (a_keys args)
      in \<lparr>o_keys = a_keys args,
          o_values = map (\<lambda>v. if isNaN v then Num 0 else v) ratio,
          o_numerators = (if useRatio (a_denominators args) then Some (a_numerators args) else None),
          o_denominators = (if useRatio (a_denominators args) then a_denominators args else None),
          o_targets = rep cl n,
          o_ll99 = rep (js_sub cl (js_mul (Num 3) sigma)) n,
          o_ll95 = rep (js_sub cl (js_mul (Num 2) sigma)) n,
          o_ll68 = rep (js_sub cl (js_mul (Num 1) sigma)) n,
          o_ul68 = rep (js_add cl (js_mul (Num 1) sigma)) n,
          o_ul95 = rep (js_add cl (js_mul (Num 2) sigma)) n,
          o_ul99 = rep (js_add cl (js_mul (Num 3) sigma)) n\<rparr>)"

section \<open>Change detection\<close>

subsection \<open>Values and their canonical strings\<close>

text \<open>
  An argument that may be \<open>null\<close> or \<open>undefined\<close>, and the array elements that
  \<open>hashArray\<close> tells apart. An object carries the text \<open>JSON.stringify\<close> gives for
  it. A string is the list of its character codes (\<open>charCodeAt\<close>), here the codes
  below 256.
\<close>

datatype 'a nullable = Null | Undefined | Value 'a

datatype jsvalue =
  JNull | JUndefined | JNumber jsnum | JString string | JBoolean bool | JObject string

definition digit :: "nat \<Rightarrow> char" where
  "digit d = ''0123456789'' ! d"

fun decimal :: "nat \<Rightarrow> string" where
  "decimal n = (if n < 10 then [digit n] else decimal (n div 10) @ [digit (n mod 10)])"

declare decimal.simps [simp del]

definition fraction6 :: "nat \<Rightarrow> string" where
  "fraction6 f =
     [digit (f div 100000 mod 10), digit (f div 10000 mod 10), digit (f div 1000 mod 10),
      digit (f div 100 mod 10), digit (f div 10 mod 10), digit (f mod 10)]"

text \<open>
  \<open>x.toFixed(6)\<close> for a finite \<open>x\<close>: the sign, then the integer nearest to
  \<open>|x| * 10^6\<close> (the larger one on a tie) written with a point before its last six
  digits. From \<open>10^21\<close> on the language switches to its general number-to-string
  conversion, which depends on the floating-point representation; it is the parameter
  \<open>big\<close>.
\<close>

definition toFixed6 :: "(real \<Rightarrow> string) \<Rightarrow> real \<Rightarrow> string" where
  "toFixed6 big v =
     (if v < 0 then ''-'' else []) @
     (if 10 ^ 21 \<le> \<bar>v\<bar> then big \<bar>v\<bar>
      else let n = nat \<lfloor>\<bar>v\<bar> * 10 ^ 6 + 1 / 2\<rfloor>
           in decimal (n div 10 ^ 6) @ ''.'' @ fraction6 (n mod 10 ^ 6))"

fun strValue :: "(real \<Rightarrow> string) \<Rightarrow> jsvalue \<Rightarrow> string" where
  "strValue big JNull = ''null''"
| "strValue big JUndefined = ''null''"
| "strValue big (JNumber NaN) = ''NaN''"
| "strValue big (JNumber PInf) = ''Inf''"
| "strValue big (JNumber NInf) = ''-Inf''"
| "strValue big (JNumber (Num v)) = toFixed6 big v"
| "strValue big (JObject json) = json"
| "strValue big (JString s) = s"
| "strValue big (JBoolean b) = (if b then ''true'' else ''false'')"

subsection \<open>\<open>hashArray\<close>\<close>

text \<open>
  The hash is kept in 32 bits: \<open>^=\<close> and \<open>Math.imul\<close> work on 32-bit integers, and
  \<open>>>> 0\<close> reads the result as unsigned before it is written in base 16.
\<close>

definition FNV_PRIME :: "32 word" where
  "FNV_PRIME = 16777619"

definition hash_char :: "32 word \<Rightarrow> char \<Rightarrow> 32 word" where
  "hash_char hash c = (hash XOR of_nat (of_char c)) * FNV_PRIME"

definition hex_digit :: "nat \<Rightarrow> char" where
  "hex_digit d = ''0123456789abcdef'' ! d"

definition toString16 :: "32 word \<Rightarrow> string" where
  "toString16 w =
     (let digits = map (\<lambda>k. hex_digit (unat (drop_bit (4 * k) w AND 15))) [7, 6, 5, 4, 3, 2, 1, 0];
          s = dropWhile (\<lambda>c. c = CHR ''0'') digits
      in if s = [] then ''0'' else s)"

definition hashArray :: "(real \<Rightarrow> string) \<Rightarrow> jsvalue list nullable \<Rightarrow> string" where
  "hashArray big arr =
     (case arr of
        Null \<Rightarrow> ''empty''
      | Undefined \<Rightarrow> ''empty''
      | Value a \<Rightarrow>
          if length a = 0 then ''empty''
          else toString16 (foldl (\<lambda>hash v. foldl hash_char hash (strValue big v)) 2166136261 a))"

subsection \<open>Snapshots\<close>

text \<open>The viewport dimensions are finite numbers.\<close>

record DataState =
  numeratorsHash :: string
  denominatorsHash :: "string option"
  keysHash :: string
  dataLength :: nat
  splitIndexesHash :: string
  viewportWidth :: real
  viewportHeight :: real

text \<open>
  The category hashes, a \<open>Map\<close> in the source, in insertion order; the keys of a
  \<open>Map\<close> are distinct.
\<close>

record SettingsState =
  categoryHashes :: "(string \<times> string) list"

record ChangeFlags =
  dataChanged :: bool
  settingsChanged :: "string list"
  limitsNeedRecalc :: bool
  outliersNeedRecalc :: bool
  renderNeeded :: "string list"
  resizeOnly :: bool
  viewportChanged :: bool

definition createDataState ::
  "(real \<Rightarrow> string) \<Rightarrow> jsvalue list nullable \<Rightarrow> jsvalue list nullable \<Rightarrow> key list nullable
     \<Rightarrow> jsvalue list nullable \<Rightarrow> real \<Rightarrow> real \<Rightarrow> DataState" where
  "createDataState big nums dens ks splitIndexes w h =
     \<lparr>numeratorsHash = hashArray big nums,
      denominatorsHash = (case dens of Value d \<Rightarrow> Some (hashArray big (Value d)) | _ \<Rightarrow> None),
      keysHash = (case ks of Value k \<Rightarrow> hashArray big (Value (map (\<lambda>k. JString (label k)) k))
                  | _ \<Rightarrow> ''null''),
      dataLength = (case nums of Value n \<Rightarrow> length n | _ \<Rightarrow> 0),
      splitIndexesHash = hashArray big splitIndexes,
      viewportWidth = w,
      viewportHeight = h\<rparr>"

subsection \<open>Comparing snapshots\<close>

text \<open>The result is the triple \<open>(dataChanged, resizeOnly, viewportChanged)\<close>.\<close>

definition detectDataChanges :: "DataState option \<Rightarrow> DataState \<Rightarrow> bool \<times> bool \<times> bool" where
  "detectDataChanges prev current =
     (case prev of
        None \<Rightarrow> (True, False, True)
      | Some p \<Rightarrow>
          let viewportChanged = (viewportWidth p \<noteq> viewportWidth current
                                  \<or> viewportHeight p \<noteq> viewportHeight current);
              dataChanged = (numeratorsHash p \<noteq> numeratorsHash current
                              \<or> denominatorsHash p \<noteq> denominatorsHash current
                              \<or> keysHash p \<noteq> keysHash current
                              \<or> dataLength p \<noteq> dataLength current
                              \<or> splitIndexesHash p \<noteq> splitIndexesHash current);
              resizeOnly = (viewportChanged \<and> \<not> dataChanged)
          in (dataChanged, resizeOnly, viewportChanged))"

text \<open>A \<open>Set\<close> of strings, in insertion order.\<close>

definition set_add :: "string \<Rightarrow> string list \<Rightarrow> string list" where
  "set_add v s = (if v \<in> set s then s else s @ [v])"

definition detectSettingsChanges :: "SettingsState option \<Rightarrow> SettingsState \<Rightarrow> string list" where
  "detectSettingsChanges prev current =
     (case prev of
        None \<Rightarrow> fold set_add (map fst (categoryHashes current)) []
      | Some p \<Rightarrow>
          fold (\<lambda>(category, hash) changedCategories.
                  if map_of (categoryHashes p) category \<noteq> Some hash
                  then set_add category changedCategories else changedCategories)
               (categoryHashes current) [])"

subsection \<open>\<open>computeChangeFlags\<close>\<close>

definition SETTINGS_TO_RENDER_MAP :: "(string \<times> string list) list" where
  "SETTINGS_TO_RENDER_MAP =
     [(''spc'', [''dots'', ''lines'', ''icons'']),
      (''lines'', [''lines'', ''lineLabels'']),
      (''scatter'', [''dots'']),
      (''outliers'', [''dots'', ''lines'', ''icons'']),
      (''x_axis'', [''xAxis'']),
      (''y_axis'', [''yAxis'']),
      (''canvas'', [''all'']),
      (''labels'', [''valueLabels'']),
      (''nhs_icons'', [''icons'']),
      (''summary_table'', [''summaryTable'']),
      (''download'', [''downloadButton''])]"

definition LIMIT_RECALC_SETTINGS :: "string list" where
  "LIMIT_RECALC_SETTINGS = [''spc'']"

definition OUTLIER_RECALC_SETTINGS :: "string list" where
  "OUTLIER_RECALC_SETTINGS = [''outliers'']"

text \<open>
  The table is a plain object and is read with \<open>SETTINGS_TO_RENDER_MAP[category]\<close>: a
  category named like a member that every object inherits finds that member, which is
  truthy and cannot be iterated, and the \<open>for ... of\<close> over it throws.
\<close>

datatype js_error = TypeError

definition inherited_members :: "string list" where
  "inherited_members =
     [''constructor'', ''hasOwnProperty'', ''isPrototypeOf'', ''propertyIsEnumerable'',
      ''toLocaleString'', ''toString'', ''valueOf'', ''__proto__'', ''__defineGetter__'',
      ''__defineSetter__'', ''__lookupGetter__'', ''__lookupSetter__'']"

definition renderStages :: "string \<Rightarrow> js_error + string list option" where
  "renderStages category =
     (case map_of SETTINGS_TO_RENDER_MAP category of
        Some stages \<Rightarrow> Inr (Some stages)
      | None \<Rightarrow> if category \<in> set inherited_members then Inl TypeError else Inr None)"

text \<open>
  The loop over the changed categories; its state is
  \<open>(limitsNeedRecalc, outliersNeedRecalc, renderNeeded)\<close>.
\<close>

fun settings_loop ::
  "string list \<Rightarrow> bool \<times> bool \<times> string list \<Rightarrow> js_error + (bool \<times> bool \<times> string list)" where
  "settings_loop [] st = Inr st"
| "settings_loop (category # rest) (limitsRecalc, outliersRecalc, render) =
     (let limits1 = (if category \<in> set LIMIT_RECALC_SETTINGS then True else limitsRecalc);
          outliers1 = (if category \<in> set LIMIT_RECALC_SETTINGS then True else outliersRecalc);
          outliers2 = (if category \<in> set OUTLIER_RECALC_SETTINGS then True else outliers1)
      in case renderStages category of
           Inl e \<Rightarrow> Inl e
         | Inr None \<Rightarrow> settings_loop rest (limits1, outliers2, render)
         | Inr (Some stages) \<Rightarrow> settings_loop rest (limits1, outliers2, fold set_add stages render))"

text \<open>
  The locals of the source carry the names of the fields they end in; here they are
  \<open>dChanged\<close>, \<open>rOnly\<close>, \<open>vChanged\<close>, \<open>sChanged\<close>, \<open>limitsRecalc\<close> and
  \<open>outliersRecalc\<close>.
\<close>

definition computeChangeFlags ::
  "DataState option \<Rightarrow> DataState \<Rightarrow> SettingsState option \<Rightarrow> SettingsState \<Rightarrow> bool
     \<Rightarrow> js_error + ChangeFlags" where
  "computeChangeFlags prevDataState currentDataState prevSettingsState currentSettingsState
      isFirstRun =
     (case detectDataChanges prevDataState currentDataState of
        (dChanged, rOnly, vChanged) \<Rightarrow>
          let sChanged = detectSettingsChanges prevSettingsState currentSettingsState in
          if isFirstRun then
            Inr \<lparr>dataChanged = True, settingsChanged = sChanged,
                 limitsNeedRecalc = True, outliersNeedRecalc = True,
                 renderNeeded = set_add ''all'' [], resizeOnly = False, viewportChanged = True\<rparr>
          else
            let render0 =
                  (if dChanged
                   then fold set_add [''dots'', ''lines'', ''icons'', ''xAxis'', ''yAxis'',
                                      ''valueLabels'', ''lineLabels''] []
                   else [])
            in case settings_loop sChanged (dChanged, dChanged, render0) of
                 Inl e \<Rightarrow> Inl e
               | Inr (limitsRecalc, outliersRecalc, render1) \<Rightarrow>
                   let render2 = (if vChanged
                                  then set_add ''yAxis'' (set_add ''xAxis'' render1) else render1);
                       render3 = (if rOnly \<and> \<not> limitsRecalc
                                  then set_add ''lines'' (set_add ''dots'' render2) else render2)
                   in Inr \<lparr>dataChanged = dChanged, settingsChanged = sChanged,
                           limitsNeedRecalc = limitsRecalc,
                           outliersNeedRecalc = outliersRecalc,
                           renderNeeded = render3, resizeOnly = rOnly,
                           viewportChanged = vChanged\<rparr>)"

section \<open>The orchestrator\<close>

subsection \<open>Subgroup ranges\<close>

record validationStatusT =
  status :: int
  error :: string

text \<open>
  The extracted input of one cycle: the arguments of the limit calculation, the break
  indexes that come with the data, the warning text and the validation status. The
  tooltips, highlights and formatting it also carries play no part here.
\<close>

record dataObject =
  limitInputArgs :: controlLimitsArgs
  groupingIndexes :: "int list"
  warningMessage :: string
  validationStatus :: validationStatusT

text \<open>\<open>filter((d, idx, arr) => arr.indexOf(d) === idx)\<close>: the first occurrence of each value.\<close>

definition first_occurrences :: "int list \<Rightarrow> int list" where
  "first_occurrences arr =
     map (\<lambda>idx. arr ! idx) (filter (\<lambda>idx. arr ! idx \<notin> set (take idx arr)) [0..<length arr])"

definition allIndexes_of :: "dataObject \<Rightarrow> int list option \<Rightarrow> int list" where
  "allIndexes_of d splitIndexes =
     sort (first_occurrences
       ((case splitIndexes of None \<Rightarrow> [] | Some s \<Rightarrow> s) @ [- 1] @ groupingIndexes d
          @ [int (length (a_keys (limitInputArgs d))) - 1]))"

definition getGroupingIndexes :: "dataObject \<Rightarrow> int list option \<Rightarrow> (int \<times> int) list" where
  "getGroupingIndexes d splitIndexes =
     (let allIndexes = allIndexes_of d splitIndexes
      in map (\<lambda>i. (allIndexes ! i + 1, allIndexes ! (i + 1) + 1)) [0..<length allIndexes - 1])"

subsection \<open>The view model\<close>

record outliersObject =
  f_astpoint :: "string list"
  f_trend :: "string list"
  f_two_in_three :: "string list"
  f_shift :: "string list"

record viewModelValidationT =
  v_status :: bool
  v_error :: "string option"
  v_warning :: "string option"
  v_type :: "string option"

text \<open>
  The fields of \<open>viewModelClass\<close> that the update cycle reads or writes; a field read in
  the source as \<open>this.f\<close> is \<open>this_f\<close>. A field that is \<open>null\<close> or not yet assigned is
  \<open>None\<close>. The settings object, a plot point, a grouped line and a row of the grouped
  table are opaque (\<open>'st\<close>, \<open>'pp\<close>, \<open>'gl\<close>, \<open>'pg\<close>); the colour palette, the selection
  identities and the table columns are left out.
\<close>

record ('st, 'pp, 'gl, 'pg) viewModelClass =
  this_inputData :: "dataObject option"
  this_inputSettings :: 'st
  this_controlLimits :: "controlLimitsObject option"
  this_outliers :: "outliersObject option"
  this_plotPoints :: "'pp list"
  this_groupedLines :: "'gl list"
  this_splitIndexes :: "int list"
  this_groupStartEndIndexes :: "(int \<times> int) list option"
  this_firstRun :: bool
  this_svgWidth :: real
  this_svgHeight :: real
  this_showGrouped :: bool
  this_inputDataGrouped :: "dataObject list option"
  this_groupStartEndIndexesGrouped :: "(int \<times> int) list list option"
  this_controlLimitsGrouped :: "controlLimitsObject option list option"
  this_outliersGrouped :: "outliersObject option list option"
  this_plotPointsGrouped :: "'pg list"
  this_prevDataState :: "DataState option"
  this_prevSettingsState :: "SettingsState option"
  this_lastChangeFlags :: "ChangeFlags option"

text \<open>
  What one call of \<open>update\<close> gets from outside the sources at hand: the options of the
  host, the settings class, the extraction and validation of the input, the limit
  functions behind \<open>calculateLimits\<close>, the rules behind \<open>flagOutliers\<close>, and the builders
  of the plot data.
\<close>

record ('st, 'pp, 'gl, 'pg) collaborators =
  options_type :: nat
  viewport_width :: real
  viewport_height :: real
  has_indicator :: bool
  split_indexes :: "int list"
  number_to_string :: "real \<Rightarrow> string"
  settings_update :: "'st \<Rightarrow> 'st"
  settings_error :: "'st \<Rightarrow> string"
  group_settings :: "'st \<Rightarrow> nat \<Rightarrow> 'st"
  spc_outliers_in_limits :: "'st \<Rightarrow> bool"
  validateDataView :: "'st \<Rightarrow> string"
  createSettingsState :: "'st \<Rightarrow> SettingsState"
  extractInputData :: "'st \<Rightarrow> dataObject"
  extractInputDataGrouped :: "'st \<Rightarrow> dataObject list"
  limitFunction :: "dataObject \<Rightarrow> (int \<times> int) list \<Rightarrow> 'st \<Rightarrow> controlLimitsObject"
  scaleAndTruncateLimits :: "controlLimitsObject \<Rightarrow> 'st \<Rightarrow> controlLimitsObject"
  flagOutliers :: "controlLimitsObject option \<Rightarrow> (int \<times> int) list option \<Rightarrow> 'st \<Rightarrow> outliersObject"
  initialisePlotData :: "('st, 'pp, 'gl, 'pg) viewModelClass \<Rightarrow> 'pp list"
  initialiseGroupedLines :: "('st, 'pp, 'gl, 'pg) viewModelClass \<Rightarrow> 'gl list"
  initialisePlotDataGrouped :: "('st, 'pp, 'gl, 'pg) viewModelClass \<Rightarrow> 'pg list"

text \<open>
  \<open>calculateLimits\<close> first stores the \<open>outliers_in_limits\<close> setting in the input it was
  given, then computes the limits.
\<close>

definition set_outliers_in_limits :: "bool \<Rightarrow> dataObject \<Rightarrow> dataObject" where
  "set_outliers_in_limits b d =
     d\<lparr>limitInputArgs := (limitInputArgs d)\<lparr>a_outliers_in_limits := b\<rparr>\<rparr>"

definition calculateLimits ::
  "('st, 'pp, 'gl, 'pg) collaborators \<Rightarrow> dataObject \<Rightarrow> (int \<times> int) list \<Rightarrow> 'st
     \<Rightarrow> dataObject \<times> controlLimitsObject" where
  "calculateLimits c d groupStartEndIndexes st =
     (let d1 = set_outliers_in_limits (spc_outliers_in_limits c st) d
      in (d1, limitFunction c d1 groupStartEndIndexes st))"

definition numbers :: "jsnum list \<Rightarrow> jsvalue list" where
  "numbers xs = map JNumber xs"

definition currentDataState ::
  "('st, 'pp, 'gl, 'pg) collaborators \<Rightarrow> ('st, 'pp, 'gl, 'pg) viewModelClass \<Rightarrow> DataState" where
  "currentDataState c vm =
     createDataState (number_to_string c)
       (case this_inputData vm of None \<Rightarrow> Null
        | Some d \<Rightarrow> Value (numbers (a_numerators (limitInputArgs d))))
       (case this_inputData vm of None \<Rightarrow> Null
        | Some d \<Rightarrow> (case a_denominators (limitInputArgs d) of None \<Rightarrow> Null
                     | Some dens \<Rightarrow> Value (numbers dens)))
       (case this_inputData vm of None \<Rightarrow> Null | Some d \<Rightarrow> Value (a_keys (limitInputArgs d)))
       (Value (map (\<lambda>i. JNumber (Num (real_of_int i))) (this_splitIndexes vm)))
       (this_svgWidth vm) (this_svgHeight vm)"

subsection \<open>The branches of \<open>update\<close>\<close>

text \<open>
  Each branch returns the view model as it leaves it and, when the change flags could not
  be computed, the exception that ends the call there.
\<close>

definition update_single ::
  "('st, 'pp, 'gl, 'pg) collaborators \<Rightarrow> SettingsState \<Rightarrow> ('st, 'pp, 'gl, 'pg) viewModelClass
     \<Rightarrow> ('st, 'pp, 'gl, 'pg) viewModelClass \<times> js_error option" where
  "update_single c currentSettingsState vm =
     (let st = this_inputSettings vm;
          d = extractInputData c st;
          vm1 = vm\<lparr>this_showGrouped := False, this_inputDataGrouped := None,
                   this_groupStartEndIndexesGrouped := None, this_controlLimitsGrouped := None,
                   this_splitIndexes := split_indexes c, this_inputData := Some d\<rparr>
      in if status (validationStatus d) = 0 then
           let cds = currentDataState c vm1 in
           case computeChangeFlags (this_prevDataState vm1) cds (this_prevSettingsState vm1)
                  currentSettingsState (this_firstRun vm1) of
             Inl e \<Rightarrow> (vm1, Some e)
           | Inr flags \<Rightarrow>
               let vm2 = vm1\<lparr>this_lastChangeFlags := Some flags\<rparr>;
                   vm3 = (if limitsNeedRecalc flags \<or> this_firstRun vm2 then
                            let g = getGroupingIndexes d (Some (this_splitIndexes vm2));
                                (d1, limits) = calculateLimits c d g st
                            in vm2\<lparr>this_groupStartEndIndexes := Some g,
                                   this_inputData := Some d1,
                                   this_controlLimits := Some (scaleAndTruncateLimits c limits st)\<rparr>
                          else vm2);
                   vm4 = (if outliersNeedRecalc flags \<or> this_firstRun vm3 then
                            vm3\<lparr>this_outliers :=
                                   Some (flagOutliers c (this_controlLimits vm3)
                                           (this_groupStartEndIndexes vm3) st)\<rparr>
                          else vm3);
                   vm5 = vm4\<lparr>this_plotPoints := initialisePlotData c vm4\<rparr>;
                   vm6 = vm5\<lparr>this_groupedLines := initialiseGroupedLines c vm5\<rparr>
               in (vm6\<lparr>this_prevDataState := Some cds\<rparr>, None)
         else (vm1, None))"

text \<open>One group of the grouped mode: its input, its ranges, its limits and its flags.\<close>

definition group_result ::
  "('st, 'pp, 'gl, 'pg) collaborators \<Rightarrow> 'st \<Rightarrow> nat \<Rightarrow> dataObject
     \<Rightarrow> dataObject \<times> (int \<times> int) list \<times> controlLimitsObject option \<times> outliersObject option" where
  "group_result c st idx inpData =
     (if status (validationStatus inpData) \<noteq> 0 then (inpData, [], None, None)
      else
        let gs = group_settings c st idx;
            g = getGroupingIndexes inpData None;
            (d1, limits) = calculateLimits c inpData g gs;
            outliers = flagOutliers c (Some limits) (Some g) gs
        in (d1, g, Some (scaleAndTruncateLimits c limits gs), Some outliers))"

definition update_grouped ::
  "('st, 'pp, 'gl, 'pg) collaborators \<Rightarrow> SettingsState \<Rightarrow> ('st, 'pp, 'gl, 'pg) viewModelClass
     \<Rightarrow> ('st, 'pp, 'gl, 'pg) viewModelClass \<times> js_error option" where
  "update_grouped c currentSettingsState vm =
     (let st = this_inputSettings vm;
          ds = extractInputDataGrouped c st;
          rs = map (\<lambda>idx. group_result c st idx (ds ! idx)) [0..<length ds];
          vm1 = vm\<lparr>this_showGrouped := True,
                   this_inputDataGrouped := Some (map fst rs),
                   this_groupStartEndIndexesGrouped := Some (map (\<lambda>r. fst (snd r)) rs),
                   this_controlLimitsGrouped := Some (map (\<lambda>r. fst (snd (snd r))) rs),
                   this_outliersGrouped := Some (map (\<lambda>r. snd (snd (snd r))) rs)\<rparr>;
          vm2 = vm1\<lparr>this_plotPointsGrouped := initialisePlotDataGrouped c vm1\<rparr>
      in case computeChangeFlags (this_prevDataState vm2)
                (createDataState (number_to_string c) Null Null Null Null
                   (this_svgWidth vm2) (this_svgHeight vm2))
                (this_prevSettingsState vm2) currentSettingsState (this_firstRun vm2) of
           Inl e \<Rightarrow> (vm2, Some e)
         | Inr flags \<Rightarrow> (vm2\<lparr>this_lastChangeFlags := Some flags\<rparr>, None))"

definition update_resize ::
  "('st, 'pp, 'gl, 'pg) collaborators \<Rightarrow> SettingsState \<Rightarrow> ('st, 'pp, 'gl, 'pg) viewModelClass
     \<Rightarrow> ('st, 'pp, 'gl, 'pg) viewModelClass \<times> js_error option" where
  "update_resize c currentSettingsState vm =
     (let cds = currentDataState c vm
      in case computeChangeFlags (this_prevDataState vm) cds (this_prevSettingsState vm)
                currentSettingsState (this_firstRun vm) of
           Inl e \<Rightarrow> (vm, Some e)
         | Inr flags \<Rightarrow>
             (vm\<lparr>this_lastChangeFlags := Some flags, this_prevDataState := Some cds\<rparr>, None))"

fun join :: "string \<Rightarrow> string list \<Rightarrow> string" where
  "join sep [] = []"
| "join sep [s] = s"
| "join sep (s # rest) = s @ sep @ join sep rest"

definition failure :: "string \<Rightarrow> viewModelValidationT" where
  "failure e = \<lparr>v_status = False, v_error = Some e, v_warning = None, v_type = None\<rparr>"

definition success :: "string option \<Rightarrow> viewModelValidationT" where
  "success w = \<lparr>v_status = True, v_error = None, v_warning = w, v_type = None\<rparr>"

text \<open>
  The closing check of \<open>update\<close>; reading the validation status of an input that is
  \<open>null\<close> throws.
\<close>

definition validation_result ::
  "('st, 'pp, 'gl, 'pg) viewModelClass \<Rightarrow> js_error + viewModelValidationT" where
  "validation_result vm =
     (if this_showGrouped vm then
        (case this_inputDataGrouped vm of
           None \<Rightarrow> Inl TypeError
         | Some ds \<Rightarrow>
             if \<exists>d\<in>set ds. status (validationStatus d) \<noteq> 0
             then Inr (failure (join [CHR 0x0A] (map (\<lambda>d. error (validationStatus d)) ds)))
             else if \<exists>d\<in>set ds. warningMessage d \<noteq> []
             then Inr (success (Some (join [CHR 0x0A] (map warningMessage ds))))
             else Inr (success None))
      else
        (case this_inputData vm of
           None \<Rightarrow> Inl TypeError
         | Some d \<Rightarrow>
             if status (validationStatus d) \<noteq> 0 then Inr (failure (error (validationStatus d)))
             else if warningMessage d \<noteq> [] then Inr (success (Some (warningMessage d)))
             else Inr (success None)))"

subsection \<open>\<open>update\<close>\<close>

definition update ::
  "('st, 'pp, 'gl, 'pg) collaborators \<Rightarrow> ('st, 'pp, 'gl, 'pg) viewModelClass
     \<Rightarrow> ('st, 'pp, 'gl, 'pg) viewModelClass \<times> (js_error + viewModelValidationT)" where
  "update c vm =
     (let vm1 = vm\<lparr>this_svgWidth := viewport_width c, this_svgHeight := viewport_height c\<rparr>;
          data_cycle = (options_type c = 2 \<or> this_firstRun vm1);
          vm2 = (if data_cycle
                 then vm1\<lparr>this_inputSettings := settings_update c (this_inputSettings vm1)\<rparr>
                 else vm1);
          st = this_inputSettings vm2
      in if settings_error c st \<noteq> [] then
           (vm2, Inr ((failure (settings_error c st))\<lparr>v_type := Some ''settings''\<rparr>))
         else if validateDataView c st \<noteq> ''valid'' then
           (vm2, Inr (failure (validateDataView c st)))
         else
           let currentSettingsState = createSettingsState c st in
           case (if data_cycle then
                   (if has_indicator c then update_grouped c currentSettingsState vm2
                    else update_single c currentSettingsState vm2)
                 else update_resize c currentSettingsState vm2) of
             (vm3, Some e) \<Rightarrow> (vm3, Inl e)
           | (vm3, None) \<Rightarrow>
               let vm4 = vm3\<lparr>this_prevSettingsState := Some currentSettingsState,
                              this_firstRun := False\<rparr>
               in (vm4, validation_result vm4))"

section \<open>The specification's words and the worked examples\<close>

text \<open>
  Two predicates written from the specification, to be compared with what
  \<open>detectDataChanges\<close> computes; the render stages the table gives a category; and the
  concrete inputs at which the properties below are evaluated.
\<close>

definition example_values :: "jsnum list" where
  "example_values = map Num [10, 20, 90, 95, 15, 95, 95]"

definition example_ul95 :: limits where
  "example_ul95 = Some (replicate 7 (Some (Num 50)))"

definition three_keys :: "key list" where
  "three_keys = [\<lparr>x = 0, id = 0, label = ''a''\<rparr>, \<lparr>x = 1, id = 1, label = ''b''\<rparr>,
                 \<lparr>x = 2, id = 2, label = ''c''\<rparr>]"

text \<open>
  A position of the worker's input at which nothing is divided: the denominators are
  absent, or the one at this position is missing, zero or \<open>NaN\<close>.
\<close>

definition no_divisor :: "controlLimitsArgs \<Rightarrow> nat \<Rightarrow> bool" where
  "no_divisor args i =
     (case a_denominators args of None \<Rightarrow> True | Some d \<Rightarrow> length d \<le> i \<or> \<not> truthy (d ! i))"

text \<open>A plain element-by-element division, to stand for the parameter of \<open>iLimits\<close>.\<close>

definition sample_divide :: "jsnum list \<Rightarrow> jsnum list \<Rightarrow> jsnum list" where
  "sample_divide nums dens = map (\<lambda>(n, d). js_div n d) (zip nums dens)"

definition sentinel_data :: LimitArgs where
  "sentinel_data = \<lparr>inputData = \<lparr>keys = three_keys, numerators = [Num 5, PInf, NaN],
                                   denominators = Some [Num 0, Num 1, Num 2]\<rparr>,
                     outliers_in_limits = False\<rparr>"

definition sentinel_args :: controlLimitsArgs where
  "sentinel_args = \<lparr>a_keys = three_keys @ [\<lparr>x = 3, id = 3, label = ''d''\<rparr>],
                     a_numerators = [Num 5, PInf, NaN, Num 7],
                     a_denominators = Some [Num 0, Num 1, Num 2], xbar_sds = None,
                     a_outliers_in_limits = False, subset_points = None\<rparr>"

definition stages_of :: "string \<Rightarrow> string set" where
  "stages_of category =
     (case map_of SETTINGS_TO_RENDER_MAP category of None \<Rightarrow> {} | Some stages \<Rightarrow> set stages)"

definition state_a :: DataState where
  "state_a = \<lparr>numeratorsHash = ''ed6eb803'', denominatorsHash = None, keysHash = ''811c9dc5'',
              dataLength = 2, splitIndexesHash = ''empty'', viewportWidth = 100,
              viewportHeight = 50\<rparr>"

definition state_b :: DataState where
  "state_b = state_a\<lparr>viewportWidth := 120\<rparr>"

definition settings_a :: SettingsState where
  "settings_a = \<lparr>categoryHashes = [(''spc'', ''a1''), (''canvas'', ''b2'')]\<rparr>"

definition resize_flags :: ChangeFlags where
  "resize_flags = \<lparr>dataChanged = False, settingsChanged = [], limitsNeedRecalc = False,
                    outliersNeedRecalc = False,
                    renderNeeded = [''xAxis'', ''yAxis'', ''dots'', ''lines''],
                    resizeOnly = True, viewportChanged = True\<rparr>"

definition data_differs :: "DataState \<Rightarrow> DataState \<Rightarrow> bool" where
  "data_differs p c =
     (numeratorsHash p \<noteq> numeratorsHash c \<or> denominatorsHash p \<noteq> denominatorsHash c
      \<or> keysHash p \<noteq> keysHash c \<or> splitIndexesHash p \<noteq> splitIndexesHash c
      \<or> dataLength p \<noteq> dataLength c)"

definition viewport_differs :: "DataState \<Rightarrow> DataState \<Rightarrow> bool" where
  "viewport_differs p c =
     (viewportWidth p \<noteq> viewportWidth c \<or> viewportHeight p \<noteq> viewportHeight c)"

definition example_data :: dataObject where
  "example_data = \<lparr>limitInputArgs = \<lparr>a_keys = replicate 6 \<lparr>x = 0, id = 0, label = []\<rparr>,
       a_numerators = [], a_denominators = None, xbar_sds = None, a_outliers_in_limits = False,
       subset_points = None\<rparr>, groupingIndexes = [3, 1], warningMessage = [],
       validationStatus = \<lparr>status = 0, error = []\<rparr>\<rparr>"

definition failing_data :: dataObject where
  "failing_data = \<lparr>limitInputArgs = \<lparr>a_keys = [], a_numerators = [], a_denominators = None,
       xbar_sds = None, a_outliers_in_limits = False, subset_points = None\<rparr>,
     groupingIndexes = [], warningMessage = [],
     validationStatus = \<lparr>status = 1, error = ''No valid data''\<rparr>\<rparr>"

definition retained_limits :: controlLimitsObject where
  "retained_limits = \<lparr>o_keys = [], o_values = [Num 5, Num 6], o_numerators = None,
     o_denominators = None, o_targets = [Num 5, Num 5], o_ll99 = [Num 2, Num 2],
     o_ll95 = [Num 3, Num 3], o_ll68 = [Num 4, Num 4], o_ul68 = [Num 6, Num 6],
     o_ul95 = [Num 7, Num 7], o_ul99 = [Num 8, Num 8]\<rparr>"

definition retained_outliers :: outliersObject where
  "retained_outliers = \<lparr>f_astpoint = [''none'', ''none''], f_trend = [''none'', ''none''],
     f_two_in_three = [''none'', ''none''], f_shift = [''none'', ''none'']\<rparr>"

definition failing_cycle :: "(unit, nat, nat, nat) collaborators" where
  "failing_cycle = \<lparr>options_type = 2, viewport_width = 640, viewport_height = 480,
     has_indicator = False, split_indexes = [], number_to_string = (\<lambda>v. []),
     settings_update = (\<lambda>st. st), settings_error = (\<lambda>st. []),
     group_settings = (\<lambda>st idx. st), spc_outliers_in_limits = (\<lambda>st. False),
     validateDataView = (\<lambda>st. ''valid''),
     createSettingsState = (\<lambda>st. \<lparr>categoryHashes = [(''spc'', ''a1'')]\<rparr>),
     extractInputData = (\<lambda>st. failing_data), extractInputDataGrouped = (\<lambda>st. []),
     limitFunction = (\<lambda>d g st. retained_limits), scaleAndTruncateLimits = (\<lambda>l st. l),
     flagOutliers = (\<lambda>l g st. retained_outliers), initialisePlotData = (\<lambda>vm. []),
     initialiseGroupedLines = (\<lambda>vm. []), initialisePlotDataGrouped = (\<lambda>vm. [])\<rparr>"

definition retained_view :: "(unit, nat, nat, nat) viewModelClass" where
  "retained_view = \<lparr>this_inputData = None, this_inputSettings = (),
     this_controlLimits = Some retained_limits, this_outliers = Some retained_outliers,
     this_plotPoints = [0, 1], this_groupedLines = [0], this_splitIndexes = [],
     this_groupStartEndIndexes = Some [(0, 2)], this_firstRun = False, this_svgWidth = 640,
     this_svgHeight = 480, this_showGrouped = False, this_inputDataGrouped = None,
     this_groupStartEndIndexesGrouped = None, this_controlLimitsGrouped = None,
     this_outliersGrouped = None, this_plotPointsGrouped = [], this_prevDataState = None,
     this_prevSettingsState = None, this_lastChangeFlags = None\<rparr>"

text \<open>A view model as a grouped cycle leaves it.\<close>

definition grouped_view :: "(unit, nat, nat, nat) viewModelClass" where
  "grouped_view = \<lparr>this_inputData = None, this_inputSettings = (),
     this_controlLimits = None, this_outliers = None,
     this_plotPoints = [], this_groupedLines = [], this_splitIndexes = [],
     this_groupStartEndIndexes = None, this_firstRun = False, this_svgWidth = 640,
     this_svgHeight = 480, this_showGrouped = True, this_inputDataGrouped = Some [example_data],
     this_groupStartEndIndexesGrouped = Some [[(0, 6)]],
     this_controlLimitsGrouped = Some [Some retained_limits],
     this_outliersGrouped = Some [Some retained_outliers], this_plotPointsGrouped = [0],
     this_prevDataState = None,
     this_prevSettingsState = Some \<lparr>categoryHashes = [(''spc'', ''a1'')]\<rparr>,
     this_lastChangeFlags = None\<rparr>"

section \<open>Properties of the two-in-three rule\<close>

lemma window_sums_example:
  "window_sums [0, 0, 0, 0, 0, 0, 0] [0, 0, 1, 1, 0, 1, 1]
     = ([0, 0, 0, 0, 0, 0, 0], [0, 0, 1, 2, 2, 2, 2])"
  by code_simp

lemma upper_flags_example:
  "map (above_limit example_ul95 example_values) [0..<7] = [0, 0, 1, 1, 0, 1, 1]"
  by code_simp

lemma classify_example:
  "map (\<lambda>i. classify ([0, 0, 0, 0, 0, 0, 0] ! i) ([0, 0, 1, 2, 2, 2, 2] ! i)) [0..<7]
     = [''none'', ''none'', ''none'', ''upper'', ''upper'', ''upper'', ''upper'']"
  by code_simp

text \<open>
  C1 (as the code has it). On the values 10, 20, 90, 95, 15, 95, 95 with the upper bound
  50 at every point and no value below its lower bound, the rule without backfill flags
  the indices 3, 4, 5 and 6 as upper and the indices 0, 1 and 2 as none: at index 3 the
  window holds 20, 90, 95 and at index 4 it holds 90, 95, 15, two of three above the
  bound each time.
\<close>

theorem twoInThree_example:
  assumes "\<forall>i<7. below_limit ll example_values i = 0"
  shows "twoInThree example_values ll example_ul95 False
           = [''none'', ''none'', ''none'', ''upper'', ''upper'', ''upper'', ''upper'']"
proof -
  have "map (below_limit ll example_values) [0..<7] = map (\<lambda>i. 0) [0..<7]"
    using assms by (intro map_cong) auto
  also have "\<dots> = [0, 0, 0, 0, 0, 0, 0]"
    by code_simp
  finally have lower: "map (below_limit ll example_values) [0..<7] = [0, 0, 0, 0, 0, 0, 0]" .
  have len: "length example_values = 7"
    by (simp add: example_values_def)
  show ?thesis
    unfolding twoInThree_def len Let_def lower upper_flags_example window_sums_example
    by (simp add: classify_example)
qed

text \<open>The same at the lower bound 0 for every point, which no value crosses.\<close>

theorem twoInThree_example_witness:
  "twoInThree example_values (Some (replicate 7 (Some (Num 0)))) example_ul95 False
     = [''none'', ''none'', ''none'', ''upper'', ''upper'', ''upper'', ''upper'']"
proof -
  have "\<forall>i\<in>set [0..<7].
          below_limit (Some (replicate 7 (Some (Num 0)))) example_values i = 0"
    by code_simp
  then have h: "\<forall>i<7. below_limit (Some (replicate 7 (Some (Num 0)))) example_values i = 0"
    by simp
  show ?thesis
    using twoInThree_example [OF h] .
qed

text \<open>
  The claim as the specification words it (upper at 5 and 6 only) fails on the code: the
  flag at index 3 is upper.
\<close>

theorem twoInThree_example_counterexample:
  "twoInThree (map Num [10, 20, 90, 95, 15, 95, 95]) (Some (replicate 7 (Some (Num 0))))
      (Some (replicate 7 (Some (Num 50)))) False
     \<noteq> [''none'', ''none'', ''none'', ''none'', ''none'', ''upper'', ''upper'']"
  by code_simp

text \<open>
  The three-argument variant always backfills; on the same input it flags the indices 1
  to 6.
\<close>

lemma two_in_three_example:
  "two_in_three (map Num [10, 20, 90, 95, 15, 95, 95]) (replicate 7 (Num 0))
      (replicate 7 (Num 50))
     = [''none'', ''upper'', ''upper'', ''upper'', ''upper'', ''upper'', ''upper'']"
  by code_simp

section \<open>Properties of the i-chart limits\<close>

subsection \<open>A subgroup of equal values\<close>

lemma diff_replicate: "diff (replicate n (Num v)) = replicate (n - 1) (Num 0)"
proof (induction n)
  case 0
  then show ?case by simp
next
  case (Suc n)
  then show ?case by (cases n) (simp_all add: js_sub_def)
qed

lemma abs_diff_replicate: "abs_arr (diff (replicate n (Num v))) = replicate (n - 1) (Num 0)"
  by (simp add: abs_arr_def diff_replicate)

lemma foldl_add_replicate:
  "foldl js_add (Num a) (replicate n (Num v)) = Num (a + real n * v)"
  by (induction n arbitrary: a) (simp_all add: algebra_simps)

lemma filter_not_NaN_replicate:
  "filter (\<lambda>v. \<not> isNaN v) (replicate n (Num v)) = replicate n (Num v)"
  by (induction n) simp_all

lemma d3_mean_replicate:
  "d3_mean (replicate n (Num v)) = (if n = 0 then None else Some (Num v))"
  by (simp add: d3_mean_def filter_not_NaN_replicate foldl_add_replicate)

lemma d3_mean_Nil: "d3_mean [] = None"
  by (simp add: d3_mean_def)

lemma mean_replicate:
  "mean (replicate n (Num v)) = (if n = 0 then Num 0 else Num v)"
  by (simp add: mean_def foldl_add_replicate)

lemma mean_Nil: "mean [] = Num 0"
  by (simp add: mean_def)

text \<open>No difference of zero is strictly below a cut-off of zero (or of \<open>NaN\<close>).\<close>

lemma filter_lt_zeros:
  "ulim = NaN \<or> ulim = Num 0 \<Longrightarrow> filter (\<lambda>d. js_lt d ulim) (replicate n (Num 0)) = []"
  by (induction n) auto

lemma sigma_of_all_equal_False: "sigma_of (replicate n (Num v)) False = NaN"
proof -
  define ulim where
    "ulim = js_mul (to_number (d3_mean (replicate (n - 1) (Num 0)))) (Num (3267 / 1000))"
  have "ulim = NaN \<or> ulim = Num 0"
    by (simp add: ulim_def d3_mean_replicate)
  then have "filter (\<lambda>d. js_lt d ulim) (replicate (n - 1) (Num 0)) = []"
    by (rule filter_lt_zeros)
  then show ?thesis
    unfolding sigma_of_def Let_def abs_diff_replicate ulim_def
    by (simp add: d3_mean_Nil)
qed

lemma sigma_of_all_equal_True:
  "sigma_of (replicate n (Num v)) True = (if n \<le> 1 then NaN else Num 0)"
  by (simp add: sigma_of_def abs_diff_replicate d3_mean_replicate)

lemma worker_sigma_all_equal: "worker_sigma (replicate n (Num v)) oil = Num 0"
proof (cases oil)
  case True
  then show ?thesis
    unfolding worker_sigma_def Let_def abs_diff_replicate
    by (simp add: mean_replicate)
next
  case False
  have "js_mul (mean (replicate (n - 1) (Num 0))) (Num (3267 / 1000)) = Num 0"
    by (simp add: mean_replicate)
  then have "filter (\<lambda>d. js_lt d (js_mul (mean (replicate (n - 1) (Num 0))) (Num (3267 / 1000))))
               (replicate (n - 1) (Num 0)) = []"
    by (simp add: filter_lt_zeros)
  with False show ?thesis
    unfolding worker_sigma_def Let_def abs_diff_replicate
    by (simp add: mean_Nil)
qed

lemma js_mul_NaN: "js_mul b NaN = NaN"
  by (cases b) simp_all

lemma js_sub_NaN: "js_sub a NaN = NaN"
  by (cases a) (simp_all add: js_sub_def)

lemma js_add_NaN: "js_add a NaN = NaN"
  by (cases a) simp_all

text \<open>
  With \<open>outliers_in_limits\<close> off, \<open>iLimits\<close> of i.ts on any run of equal finite
  values: every difference is 0, the cut-off is 0 (or \<open>NaN\<close> for a single value), the
  strict filter keeps nothing, the mean of nothing is \<open>undefined\<close>, and sigma and the
  four bounds are \<open>NaN\<close>.
\<close>

lemma iLimits_all_equal_excluded:
  "iLimits dv \<lparr>inputData = \<lparr>keys = ks, numerators = replicate (Suc n) (Num v),
                               denominators = None\<rparr>, outliers_in_limits = False\<rparr>
   = new_controlLimitsClass ks (replicate (Suc n) (Num v)) None None
       (rep (Some (Num v)) (length ks)) (rep NaN (length ks)) (rep NaN (length ks))
       (rep NaN (length ks)) (rep NaN (length ks))"
  unfolding iLimits_def Let_def
  by (simp add: ratio_of_def sigma_of_all_equal_False js_sub_NaN js_add_NaN js_mul_NaN
      useRatio_def d3_mean_replicate filter_not_NaN_replicate del: replicate.simps)

text \<open>With the option on, two or more equal values give sigma 0 and bounds on the centre.\<close>

lemma iLimits_all_equal_included:
  "iLimits dv \<lparr>inputData = \<lparr>keys = ks, numerators = replicate (Suc (Suc n)) (Num v),
                               denominators = None\<rparr>, outliers_in_limits = True\<rparr>
   = new_controlLimitsClass ks (replicate (Suc (Suc n)) (Num v)) None None
       (rep (Some (Num v)) (length ks)) (rep (Num v) (length ks)) (rep (Num v) (length ks))
       (rep (Num v) (length ks)) (rep (Num v) (length ks))"
  unfolding iLimits_def Let_def
  by (simp add: ratio_of_def sigma_of_all_equal_True js_sub_def useRatio_def
      d3_mean_replicate del: replicate.simps)

text \<open>The worker's copy, whose \<open>mean\<close> of nothing is 0, collapses under either setting.\<close>

lemma worker_iLimits_all_equal:
  "worker_iLimits \<lparr>a_keys = ks, a_numerators = replicate (Suc n) (Num v),
                    a_denominators = None, xbar_sds = None,
                    a_outliers_in_limits = oil, subset_points = None\<rparr>
   = \<lparr>o_keys = ks, o_values = replicate (Suc n) (Num v), o_numerators = None,
      o_denominators = None, o_targets = rep (Num v) (length ks),
      o_ll99 = rep (Num v) (length ks), o_ll95 = rep (Num v) (length ks),
      o_ll68 = rep (Num v) (length ks), o_ul68 = rep (Num v) (length ks),
      o_ul95 = rep (Num v) (length ks), o_ul99 = rep (Num v) (length ks)\<rparr>"
  unfolding worker_iLimits_def Let_def
  by (simp add: worker_ratio_def extractValues_def worker_sigma_all_equal js_sub_def
      useRatio_def mean_replicate del: replicate.simps)

text \<open>
  C2, at the subgroup 5, 5, 5 with \<open>outliers_in_limits\<close> off: the centre line is 5, and
  the four bounds of \<open>iLimits\<close> (i.ts) are \<open>NaN\<close> at every point, not 5.
\<close>

theorem iLimits_constant_subgroup:
  "targets (iLimits dv \<lparr>inputData = \<lparr>keys = three_keys, numerators = [Num 5, Num 5, Num 5],
                   denominators = None\<rparr>, outliers_in_limits = False\<rparr>)
     = [Some (Num 5), Some (Num 5), Some (Num 5)]
   \<and> ll99 (iLimits dv \<lparr>inputData = \<lparr>keys = three_keys, numerators = [Num 5, Num 5, Num 5],
                   denominators = None\<rparr>, outliers_in_limits = False\<rparr>) = [NaN, NaN, NaN]
   \<and> ll95 (iLimits dv \<lparr>inputData = \<lparr>keys = three_keys, numerators = [Num 5, Num 5, Num 5],
                   denominators = None\<rparr>, outliers_in_limits = False\<rparr>) = [NaN, NaN, NaN]
   \<and> ul95 (iLimits dv \<lparr>inputData = \<lparr>keys = three_keys, numerators = [Num 5, Num 5, Num 5],
                   denominators = None\<rparr>, outliers_in_limits = False\<rparr>) = [NaN, NaN, NaN]
   \<and> ul99 (iLimits dv \<lparr>inputData = \<lparr>keys = three_keys, numerators = [Num 5, Num 5, Num 5],
                   denominators = None\<rparr>, outliers_in_limits = False\<rparr>) = [NaN, NaN, NaN]
   \<and> sigma_of [Num 5, Num 5, Num 5] False = NaN"
  by code_simp

subsection \<open>The sentinel for a non-number\<close>

lemma sentinel_not_NaN: "NaN \<notin> set (map (\<lambda>v. if isNaN v then Num 0 else v) r)"
  by (induction r) auto

lemma cl_values_iLimits:
  "cl_values (iLimits dv args)
     = map (\<lambda>v. if isNaN v then Num 0 else v) (ratio_of dv (inputData args))"
  by (simp add: iLimits_def Let_def new_controlLimitsClass_def)

lemma o_values_worker_iLimits:
  "o_values (worker_iLimits args) = map (\<lambda>v. if isNaN v then Num 0 else v) (worker_ratio args)"
  by (simp add: worker_iLimits_def Let_def)

lemma length_worker_ratio: "length (worker_ratio args) = length (a_numerators args)"
  by (simp add: worker_ratio_def divide_def)

lemma length_o_values: "length (o_values (worker_iLimits args)) = length (a_numerators args)"
  by (simp add: o_values_worker_iLimits length_worker_ratio)

lemma worker_ratio_no_divisor:
  assumes "i < length (a_numerators args)" and "no_divisor args i"
  shows "worker_ratio args ! i = a_numerators args ! i"
proof (cases "a_denominators args")
  case None
  then show ?thesis by (simp add: worker_ratio_def useRatio_def)
next
  case (Some d)
  with assms show ?thesis
    by (auto simp: worker_ratio_def divide_def no_divisor_def)
qed

lemma worker_ratio_divisor:
  assumes "a_denominators args = Some d" and "i < length (a_numerators args)"
    and "i < length d" and "truthy (d ! i)"
  shows "worker_ratio args ! i = js_div (a_numerators args ! i) (d ! i)"
proof -
  from assms(3) have "0 < length d" by (cases d) simp_all
  with assms show ?thesis
    by (simp add: worker_ratio_def divide_def useRatio_def)
qed

text \<open>
  C3 (as the code has it). Both calculators replace a ratio that is \<open>NaN\<close> by 0 and
  return every other ratio as it is, an infinite one included; so the values never hold
  \<open>NaN\<close>. The worker's calculator divides only by a denominator that is there and is
  neither zero nor \<open>NaN\<close>; at a position whose denominator is missing, zero or
  \<open>NaN\<close> the ratio is the numerator, and the value returned there is the numerator,
  or 0 when the numerator is \<open>NaN\<close>.
\<close>

theorem values_sentinel:
  "NaN \<notin> set (cl_values (iLimits dv args))
   \<and> NaN \<notin> set (o_values (worker_iLimits wargs))
   \<and> length (cl_values (iLimits dv args)) = length (ratio_of dv (inputData args))
   \<and> (\<forall>i<length (ratio_of dv (inputData args)).
         cl_values (iLimits dv args) ! i
           = (if isNaN (ratio_of dv (inputData args) ! i) then Num 0
              else ratio_of dv (inputData args) ! i))
   \<and> length (worker_ratio wargs) = length (a_numerators wargs)
   \<and> length (o_values (worker_iLimits wargs)) = length (a_numerators wargs)
   \<and> (\<forall>i<length (worker_ratio wargs).
         o_values (worker_iLimits wargs) ! i
           = (if isNaN (worker_ratio wargs ! i) then Num 0 else worker_ratio wargs ! i))
   \<and> (\<forall>i<length (a_numerators wargs). no_divisor wargs i \<longrightarrow>
         worker_ratio wargs ! i = a_numerators wargs ! i
         \<and> o_values (worker_iLimits wargs) ! i
             = (if isNaN (a_numerators wargs ! i) then Num 0 else a_numerators wargs ! i))
   \<and> (\<forall>d i. a_denominators wargs = Some d \<and> i < length (a_numerators wargs) \<and> i < length d
           \<and> truthy (d ! i)
         \<longrightarrow> worker_ratio wargs ! i = js_div (a_numerators wargs ! i) (d ! i))"
proof (intro conjI allI impI)
  show "NaN \<notin> set (cl_values (iLimits dv args))"
    unfolding cl_values_iLimits by (rule sentinel_not_NaN)
  show "NaN \<notin> set (o_values (worker_iLimits wargs))"
    unfolding o_values_worker_iLimits by (rule sentinel_not_NaN)
  show "length (cl_values (iLimits dv args)) = length (ratio_of dv (inputData args))"
    by (simp add: cl_values_iLimits)
  show "length (worker_ratio wargs) = length (a_numerators wargs)"
    by (rule length_worker_ratio)
  show "length (o_values (worker_iLimits wargs)) = length (a_numerators wargs)"
    by (rule length_o_values)
next
  fix i assume "i < length (ratio_of dv (inputData args))"
  then show "cl_values (iLimits dv args) ! i
           = (if isNaN (ratio_of dv (inputData args) ! i) then Num 0
              else ratio_of dv (inputData args) ! i)"
    by (simp add: cl_values_iLimits)
next
  fix i assume "i < length (worker_ratio wargs)"
  then show "o_values (worker_iLimits wargs) ! i
           = (if isNaN (worker_ratio wargs ! i) then Num 0 else worker_ratio wargs ! i)"
    by (simp add: o_values_worker_iLimits)
next
  fix i assume i: "i < length (a_numerators wargs)" and nd: "no_divisor wargs i"
  show "worker_ratio wargs ! i = a_numerators wargs ! i"
    using i nd by (rule worker_ratio_no_divisor)
  then show "o_values (worker_iLimits wargs) ! i
             = (if isNaN (a_numerators wargs ! i) then Num 0 else a_numerators wargs ! i)"
    using i by (simp add: o_values_worker_iLimits length_worker_ratio)
next
  fix d i
  assume "a_denominators wargs = Some d \<and> i < length (a_numerators wargs) \<and> i < length d
           \<and> truthy (d ! i)"
  then show "worker_ratio wargs ! i = js_div (a_numerators wargs ! i) (d ! i)"
    by (simp add: worker_ratio_divisor)
qed

lemma sentinel_ratio: "ratio_of sample_divide (inputData sentinel_data) = [PInf, PInf, NaN]"
  by code_simp

lemma sentinel_worker_ratio: "worker_ratio sentinel_args = [Num 5, PInf, NaN, Num 7]"
  by code_simp

text \<open>
  At the numerators 5, Infinity, \<open>NaN\<close> over 0, 1, 2 a plain division gives the values
  Infinity, Infinity, 0. The worker, at 5, Infinity, \<open>NaN\<close>, 7 over 0, 1, 2, gives
  5, Infinity, 0, 7: a zero denominator at position 0, none at position 3.
\<close>

theorem values_sentinel_witness:
  "2 < length (ratio_of sample_divide (inputData sentinel_data))
   \<and> isNaN (ratio_of sample_divide (inputData sentinel_data) ! 2)
   \<and> cl_values (iLimits sample_divide sentinel_data) ! 2 = Num 0
   \<and> cl_values (iLimits sample_divide sentinel_data) ! 0 = PInf
   \<and> length (a_numerators sentinel_args) = 4
   \<and> no_divisor sentinel_args 0 \<and> no_divisor sentinel_args 3
   \<and> o_values (worker_iLimits sentinel_args) ! 0 = Num 5
   \<and> o_values (worker_iLimits sentinel_args) ! 1 = PInf
   \<and> o_values (worker_iLimits sentinel_args) ! 2 = Num 0
   \<and> o_values (worker_iLimits sentinel_args) ! 3 = Num 7"
proof -
  have n: "a_numerators sentinel_args = [Num 5, PInf, NaN, Num 7]"
    by (simp add: sentinel_args_def)
  have nd: "no_divisor sentinel_args 0" "no_divisor sentinel_args 3"
    by (simp_all add: no_divisor_def sentinel_args_def)
  note t = values_sentinel [of sample_divide sentinel_data sentinel_args]
  have a: "cl_values (iLimits sample_divide sentinel_data) ! 2 = Num 0"
    "cl_values (iLimits sample_divide sentinel_data) ! 0 = PInf"
    using t by (simp_all add: sentinel_ratio)
  have b: "o_values (worker_iLimits sentinel_args) ! 0 = Num 5"
    "o_values (worker_iLimits sentinel_args) ! 3 = Num 7"
    using t nd by (simp_all add: n)
  have c: "o_values (worker_iLimits sentinel_args) ! 1 = PInf"
    "o_values (worker_iLimits sentinel_args) ! 2 = Num 0"
    using t by (simp_all add: sentinel_worker_ratio)
  show ?thesis
    using a b c nd by (simp add: sentinel_ratio n)
qed

text \<open>
  The claim as the specification words it fails on the code: with a zero denominator the
  value is the numerator 5, and an infinite ratio is returned as it is.
\<close>

theorem values_sentinel_counterexample:
  "o_values (worker_iLimits \<lparr>a_keys = three_keys, a_numerators = [Num 5, PInf, NaN],
                              a_denominators = Some [Num 0, Num 1, Num 2], xbar_sds = None,
                              a_outliers_in_limits = False, subset_points = None\<rparr>) ! 0
     \<noteq> Num 0
   \<and> o_values (worker_iLimits \<lparr>a_keys = three_keys, a_numerators = [Num 5, PInf, NaN],
                              a_denominators = Some [Num 0, Num 1, Num 2], xbar_sds = None,
                              a_outliers_in_limits = False, subset_points = None\<rparr>)
     = [Num 5, PInf, Num 0]"
  by code_simp

section \<open>Properties of change detection\<close>

subsection \<open>The hash\<close>

lemma decimal_digit: "n < 10 \<Longrightarrow> decimal n = [digit n]"
  by (simp add: decimal.simps)

lemma toFixed6_examples:
  "toFixed6 big (10000001 / 10000000) = ''1.000000''"
  "toFixed6 big (10000004 / 10000000) = ''1.000000''"
  "toFixed6 big (11 / 10) = ''1.100000''"
  "toFixed6 big (12 / 10) = ''1.200000''"
  "toFixed6 big 2 = ''2.000000''"
  by (simp_all add: toFixed6_def decimal_digit fraction6_def digit_def)

lemma hash_11_2:
  "foldl hash_char (foldl hash_char 2166136261 ''1.100000'') ''2.000000'' = 3983456259"
  by (simp add: hash_char_def FNV_PRIME_def)

lemma hash_12_2:
  "foldl hash_char (foldl hash_char 2166136261 ''1.200000'') ''2.000000'' = 950724820"
  by (simp add: hash_char_def FNV_PRIME_def)

lemma toString16_examples:
  "toString16 3983456259 = ''ed6eb803''"
  "toString16 950724820 = ''38aae8d4''"
  by (simp_all add: toString16_def hex_digit_def drop_bit_eq_div)

lemma hashArray_two:
  "hashArray big (Value [a, b])
     = toString16 (foldl hash_char (foldl hash_char 2166136261 (strValue big a))
         (strValue big b))"
  by (simp add: hashArray_def)

lemma hashArray_11_2:
  "hashArray big (Value [JNumber (Num (11 / 10)), JNumber (Num 2)]) = ''ed6eb803''"
  unfolding hashArray_two strValue.simps toFixed6_examples hash_11_2 toString16_examples
  by (rule refl)

lemma hashArray_12_2:
  "hashArray big (Value [JNumber (Num (12 / 10)), JNumber (Num 2)]) = ''38aae8d4''"
  unfolding hashArray_two strValue.simps toFixed6_examples hash_12_2 toString16_examples
  by (rule refl)

text \<open>
  C9. The lists 1.0000001, 2 and 1.0000004, 2 hash to the same string, both first
  elements being written "1.000000"; the lists 1.1, 2 and 1.2, 2 hash to different
  strings ("ed6eb803" and "38aae8d4").
\<close>

theorem hashArray_canonical:
  "hashArray big (Value [JNumber (Num (10000001 / 10000000)), JNumber (Num 2)])
     = hashArray big (Value [JNumber (Num (10000004 / 10000000)), JNumber (Num 2)])
   \<and> hashArray big (Value [JNumber (Num (11 / 10)), JNumber (Num 2)])
     \<noteq> hashArray big (Value [JNumber (Num (12 / 10)), JNumber (Num 2)])"
proof
  show "hashArray big (Value [JNumber (Num (10000001 / 10000000)), JNumber (Num 2)])
     = hashArray big (Value [JNumber (Num (10000004 / 10000000)), JNumber (Num 2)])"
    unfolding hashArray_two strValue.simps toFixed6_examples by (rule refl)
  show "hashArray big (Value [JNumber (Num (11 / 10)), JNumber (Num 2)])
     \<noteq> hashArray big (Value [JNumber (Num (12 / 10)), JNumber (Num 2)])"
    unfolding hashArray_11_2 hashArray_12_2 by simp
qed

theorem hashArray_canonical_witness:
  "hashArray (\<lambda>v. []) (Value [JNumber (Num (10000001 / 10000000)), JNumber (Num 2)])
     = hashArray (\<lambda>v. []) (Value [JNumber (Num (10000004 / 10000000)), JNumber (Num 2)])
   \<and> hashArray (\<lambda>v. []) (Value [JNumber (Num (11 / 10)), JNumber (Num 2)])
     \<noteq> hashArray (\<lambda>v. []) (Value [JNumber (Num (12 / 10)), JNumber (Num 2)])"
  using hashArray_canonical [of "\<lambda>v. []"] .

text \<open>
  C10 (as the code has it). \<open>hashArray\<close> gives "empty" for \<open>null\<close>, for
  \<open>undefined\<close> and for the array of length 0. So a snapshot does not tell absent from
  empty numerators or split indexes, and the step from one to the other changes nothing.
  It does tell them apart for the denominators (no hash, against "empty") and for the keys
  ("null", against "empty"), which \<open>createDataState\<close> tests before it hashes.
\<close>

theorem hashArray_empty:
  "hashArray big Null = ''empty'' \<and> hashArray big Undefined = ''empty''
   \<and> hashArray big (Value []) = ''empty''
   \<and> createDataState big Null dens ks Null w h
       = createDataState big (Value []) dens ks (Value []) w h
   \<and> createDataState big Undefined dens ks Undefined w h
       = createDataState big (Value []) dens ks (Value []) w h
   \<and> detectDataChanges (Some (createDataState big Null dens ks Null w h))
        (createDataState big (Value []) dens ks (Value []) w h) = (False, False, False)
   \<and> denominatorsHash (createDataState big nums Null ks si w h) = None
   \<and> denominatorsHash (createDataState big nums (Value []) ks si w h) = Some ''empty''
   \<and> keysHash (createDataState big nums dens Null si w h) = ''null''
   \<and> keysHash (createDataState big nums dens (Value []) si w h) = ''empty''"
  by (simp add: hashArray_def createDataState_def detectDataChanges_def)

theorem hashArray_empty_witness:
  "hashArray (\<lambda>v. []) Null = ''empty'' \<and> hashArray (\<lambda>v. []) Undefined = ''empty''
   \<and> hashArray (\<lambda>v. []) (Value []) = ''empty''
   \<and> detectDataChanges (Some (createDataState (\<lambda>v. []) Null Null Null Null 100 50))
        (createDataState (\<lambda>v. []) (Value []) Null Null (Value []) 100 50)
       = (False, False, False)"
  using hashArray_empty [of "\<lambda>v. []" Null Null 100 50] by blast

text \<open>
  The claim as written fails: from data that is absent throughout to data that is empty
  throughout, \<open>dataChanged\<close> is raised.
\<close>

theorem hashArray_empty_counterexample:
  "detectDataChanges (Some (createDataState (\<lambda>v. []) Null Null Null Null 100 50))
     (createDataState (\<lambda>v. []) (Value []) (Value []) (Value []) (Value []) 100 50)
   = (True, False, False)"
  by (simp add: hashArray_def createDataState_def detectDataChanges_def)

subsection \<open>The flags\<close>

text \<open>
  C4. With \<open>isFirstRun\<close> set, whatever the four states are, the flags are: data changed,
  limits and outliers to be recomputed, not a resize, and the render stages the one
  sentinel "all".
\<close>

theorem computeChangeFlags_first_run:
  "computeChangeFlags prev cur ps cs True
     = Inr \<lparr>dataChanged = True, settingsChanged = detectSettingsChanges ps cs,
            limitsNeedRecalc = True, outliersNeedRecalc = True, renderNeeded = [''all''],
            resizeOnly = False, viewportChanged = True\<rparr>"
  by (simp add: computeChangeFlags_def set_add_def split: prod.splits)

theorem computeChangeFlags_first_run_witness:
  "computeChangeFlags None state_a None settings_a True
     = Inr \<lparr>dataChanged = True, settingsChanged = [''spc'', ''canvas''],
            limitsNeedRecalc = True, outliersNeedRecalc = True, renderNeeded = [''all''],
            resizeOnly = False, viewportChanged = True\<rparr>"
proof -
  have "detectSettingsChanges None settings_a = [''spc'', ''canvas'']"
    by (simp add: detectSettingsChanges_def settings_a_def set_add_def)
  then show ?thesis
    using computeChangeFlags_first_run [of None state_a None settings_a] by simp
qed

lemma set_set_add: "set (set_add v s) = insert v (set s)"
  by (auto simp: set_add_def)

lemma set_fold_set_add: "set (fold set_add xs s) = set xs \<union> set s"
  by (induction xs arbitrary: s) (auto simp: set_set_add)

lemma settings_loop_result:
  "settings_loop cats (l, ou, r) = Inr (l', ou', r') \<Longrightarrow>
     set r' = set r \<union> (\<Union>c\<in>set cats. stages_of c)
     \<and> l' = (l \<or> ''spc'' \<in> set cats)
     \<and> ou' = (ou \<or> ''spc'' \<in> set cats \<or> ''outliers'' \<in> set cats)"
proof (induction cats arbitrary: l ou r)
  case Nil
  then show ?case by simp
next
  case (Cons c cats)
  show ?case
  proof (cases "renderStages c")
    case (Inl e)
    with Cons.prems show ?thesis by (simp add: Let_def)
  next
    case (Inr st)
    show ?thesis
    proof (cases st)
      case None
      with Inr have m: "stages_of c = {}"
        by (auto simp: renderStages_def stages_of_def split: option.splits if_splits)
      from None Inr Cons.prems
      have "settings_loop cats (l \<or> c = ''spc'', ou \<or> c = ''spc'' \<or> c = ''outliers'', r)
              = Inr (l', ou', r')"
        by (auto simp: Let_def LIMIT_RECALC_SETTINGS_def OUTLIER_RECALC_SETTINGS_def
            split: if_splits)
      from Cons.IH [OF this] m show ?thesis by auto
    next
      case (Some stages)
      with Inr have m: "stages_of c = set stages"
        by (auto simp: renderStages_def stages_of_def split: option.splits if_splits)
      from Some Inr Cons.prems
      have "settings_loop cats (l \<or> c = ''spc'', ou \<or> c = ''spc'' \<or> c = ''outliers'',
              fold set_add stages r) = Inr (l', ou', r')"
        by (auto simp: Let_def LIMIT_RECALC_SETTINGS_def OUTLIER_RECALC_SETTINGS_def
            split: if_splits)
      from Cons.IH [OF this] m show ?thesis by (auto simp: set_fold_set_add)
    qed
  qed
qed

text \<open>
  C5 (as the code has it). On a cycle past the first whose flags say resize only and no
  limit recomputation, the render stages are the two axes, the dots and the lines,
  together with the stages of the settings categories that changed; with no category
  changed they are exactly these four.
\<close>

theorem resize_only_render_stages:
  assumes "computeChangeFlags prev cur ps cs False = Inr f"
    and "resizeOnly f" and "\<not> limitsNeedRecalc f"
  shows "set (renderNeeded f)
           = {''xAxis'', ''yAxis'', ''dots'', ''lines''} \<union> (\<Union>c\<in>set (settingsChanged f). stages_of c)
         \<and> (settingsChanged f = [] \<longrightarrow>
              set (renderNeeded f) = {''xAxis'', ''yAxis'', ''dots'', ''lines''})"
proof -
  obtain dc ro vc where d: "detectDataChanges prev cur = (dc, ro, vc)"
    by (cases "detectDataChanges prev cur") auto
  have rv: "ro \<Longrightarrow> vc \<and> \<not> dc"
    using d by (auto simp: detectDataChanges_def Let_def split: option.splits)
  define sc where "sc = detectSettingsChanges ps cs"
  define r0 where "r0 = (if dc then fold set_add [''dots'', ''lines'', ''icons'', ''xAxis'',
      ''yAxis'', ''valueLabels'', ''lineLabels''] [] else [])"
  from assms(1) d obtain l ou r1 where
    loop: "settings_loop sc (dc, dc, r0) = Inr (l, ou, r1)" and
    f: "f = \<lparr>dataChanged = dc, settingsChanged = sc, limitsNeedRecalc = l,
              outliersNeedRecalc = ou,
              renderNeeded = (let render2 = (if vc then set_add ''yAxis'' (set_add ''xAxis'' r1) else r1)
                              in if ro \<and> \<not> l then set_add ''lines'' (set_add ''dots'' render2)
                                 else render2),
              resizeOnly = ro, viewportChanged = vc\<rparr>"
    by (auto simp: computeChangeFlags_def Let_def sc_def r0_def split: sum.splits)
  from assms(2,3) f have ro: ro and nl: "\<not> l" by simp_all
  from rv [OF ro] have vc: vc and ndc: "\<not> dc" by simp_all
  from ndc have r0: "r0 = []" by (simp add: r0_def)
  from settings_loop_result [OF loop] r0
  have r1: "set r1 = (\<Union>c\<in>set sc. stages_of c)" by simp
  have "set (renderNeeded f)
          = {''xAxis'', ''yAxis'', ''dots'', ''lines''} \<union> (\<Union>c\<in>set (settingsChanged f). stages_of c)"
    using ro nl vc r1 by (auto simp: f Let_def set_set_add)
  then show ?thesis by auto
qed

lemma detectSettingsChanges_settings_a: "detectSettingsChanges (Some settings_a) settings_a = []"
  by (simp add: detectSettingsChanges_def settings_a_def)

lemma resize_example:
  "computeChangeFlags (Some state_a) state_b (Some settings_a) settings_a False = Inr resize_flags"
  by (simp add: computeChangeFlags_def detectDataChanges_def detectSettingsChanges_settings_a
      state_a_def state_b_def resize_flags_def set_add_def)

theorem resize_only_render_stages_witness:
  "computeChangeFlags (Some state_a) state_b (Some settings_a) settings_a False = Inr resize_flags
   \<and> resizeOnly resize_flags \<and> \<not> limitsNeedRecalc resize_flags
   \<and> set (renderNeeded resize_flags) = {''xAxis'', ''yAxis'', ''dots'', ''lines''}"
proof -
  have 1: "resizeOnly resize_flags" and 2: "\<not> limitsNeedRecalc resize_flags"
    and 3: "settingsChanged resize_flags = []"
    by (simp_all add: resize_flags_def)
  from resize_only_render_stages [OF resize_example 1 2] 3
  have "set (renderNeeded resize_flags) = {''xAxis'', ''yAxis'', ''dots'', ''lines''}"
    by blast
  with resize_example 1 2 show ?thesis by blast
qed

text \<open>
  The claim as written (dots and lines only) fails: a change of height alone asks for the
  two axes as well.
\<close>

theorem resize_only_render_stages_counterexample:
  "computeChangeFlags
     (Some \<lparr>numeratorsHash = ''ed6eb803'', denominatorsHash = None, keysHash = ''811c9dc5'',
            dataLength = 2, splitIndexesHash = ''empty'', viewportWidth = 640,
            viewportHeight = 480\<rparr>)
     \<lparr>numeratorsHash = ''ed6eb803'', denominatorsHash = None, keysHash = ''811c9dc5'',
      dataLength = 2, splitIndexesHash = ''empty'', viewportWidth = 640,
      viewportHeight = 360\<rparr>
     (Some \<lparr>categoryHashes = [(''spc'', ''a1'')]\<rparr>) \<lparr>categoryHashes = [(''spc'', ''a1'')]\<rparr> False
   = Inr \<lparr>dataChanged = False, settingsChanged = [], limitsNeedRecalc = False,
          outliersNeedRecalc = False,
          renderNeeded = [''xAxis'', ''yAxis'', ''dots'', ''lines''],
          resizeOnly = True, viewportChanged = True\<rparr>
   \<and> \<not> set [''xAxis'', ''yAxis'', ''dots'', ''lines''] \<subseteq> {''dots'', ''lines''}"
  by (simp add: computeChangeFlags_def detectDataChanges_def detectSettingsChanges_def
      set_add_def)

text \<open>
  C6. Against a previous state, \<open>dataChanged\<close> holds exactly when a hash or the length
  differs, \<open>viewportChanged\<close> exactly when the width or the height differs, and
  \<open>resizeOnly\<close> is the second without the first. With the data fields equal, the
  viewport different and no settings category changed, a cycle past the first gets
  \<open>resizeOnly\<close> and no recomputation of the limits.
\<close>

theorem detectDataChanges_flags:
  "detectDataChanges (Some prev) cur
     = (data_differs prev cur, viewport_differs prev cur \<and> \<not> data_differs prev cur,
        viewport_differs prev cur)
   \<and> (\<not> data_differs prev cur \<and> viewport_differs prev cur
        \<longrightarrow> fst (snd (detectDataChanges (Some prev) cur)))
   \<and> (\<not> data_differs prev cur \<and> viewport_differs prev cur
        \<and> detectSettingsChanges ps cs = []
        \<longrightarrow> computeChangeFlags (Some prev) cur ps cs False
            = Inr \<lparr>dataChanged = False, settingsChanged = [], limitsNeedRecalc = False,
                   outliersNeedRecalc = False,
                   renderNeeded = [''xAxis'', ''yAxis'', ''dots'', ''lines''],
                   resizeOnly = True, viewportChanged = True\<rparr>)"
proof -
  have d: "detectDataChanges (Some prev) cur
     = (data_differs prev cur, viewport_differs prev cur \<and> \<not> data_differs prev cur,
        viewport_differs prev cur)"
    by (auto simp: detectDataChanges_def data_differs_def viewport_differs_def Let_def)
  show ?thesis
    unfolding d by (simp add: computeChangeFlags_def d set_add_def)
qed

theorem detectDataChanges_flags_witness:
  "\<not> data_differs state_a state_b \<and> viewport_differs state_a state_b
   \<and> detectSettingsChanges (Some settings_a) settings_a = []
   \<and> fst (snd (detectDataChanges (Some state_a) state_b))
   \<and> computeChangeFlags (Some state_a) state_b (Some settings_a) settings_a False
       = Inr \<lparr>dataChanged = False, settingsChanged = [], limitsNeedRecalc = False,
              outliersNeedRecalc = False,
              renderNeeded = [''xAxis'', ''yAxis'', ''dots'', ''lines''],
              resizeOnly = True, viewportChanged = True\<rparr>"
proof -
  have 1: "\<not> data_differs state_a state_b"
    by (simp add: data_differs_def state_a_def state_b_def)
  have 2: "viewport_differs state_a state_b"
    by (simp add: viewport_differs_def state_a_def state_b_def)
  show ?thesis
    using 1 2 detectSettingsChanges_settings_a
      detectDataChanges_flags [of state_a state_b "Some settings_a" settings_a]
    by blast
qed

section \<open>Properties of the orchestrator\<close>

subsection \<open>The subgroup ranges\<close>

lemma set_first_occurrences: "set (first_occurrences arr) = set arr"
proof
  show "set (first_occurrences arr) \<subseteq> set arr"
    by (auto simp: first_occurrences_def)
  show "set arr \<subseteq> set (first_occurrences arr)"
  proof
    fix v assume "v \<in> set arr"
    then obtain k where k: "k < length arr \<and> arr ! k = v"
      by (auto simp: in_set_conv_nth)
    define i where "i = (LEAST i. i < length arr \<and> arr ! i = v)"
    have i: "i < length arr \<and> arr ! i = v"
      unfolding i_def using k by (rule LeastI)
    have least: "\<not> (j < length arr \<and> arr ! j = v)" if "j < i" for j
      using that unfolding i_def by (rule not_less_Least)
    have "arr ! i \<notin> set (take i arr)"
    proof
      assume "arr ! i \<in> set (take i arr)"
      then obtain j where "j < length (take i arr)" "take i arr ! j = arr ! i"
        by (auto simp: in_set_conv_nth)
      then have "j < i" "j < length arr" "arr ! j = v"
        using i by auto
      then show False using least by blast
    qed
    with i show "v \<in> set (first_occurrences arr)"
      by (auto simp: first_occurrences_def image_iff intro!: bexI [where x = i])
  qed
qed

lemma distinct_first_occurrences: "distinct (first_occurrences arr)"
proof -
  have "inj_on (\<lambda>idx. arr ! idx) {idx. idx < length arr \<and> arr ! idx \<notin> set (take idx arr)}"
  proof (rule inj_onI)
    fix i j
    assume i: "i \<in> {idx. idx < length arr \<and> arr ! idx \<notin> set (take idx arr)}"
      and j: "j \<in> {idx. idx < length arr \<and> arr ! idx \<notin> set (take idx arr)}"
      and eq: "arr ! i = arr ! j"
    have earlier: "arr ! a \<in> set (take b arr)" if "a < b" "b < length arr" for a b
      using that by (auto simp: in_set_conv_nth intro!: exI [where x = a])
    show "i = j"
    proof (cases i j rule: linorder_cases)
      case less
      with earlier [of i j] j eq show ?thesis by auto
    next
      case greater
      with earlier [of j i] i eq show ?thesis by auto
    qed simp
  qed
  then show ?thesis
    by (auto simp: first_occurrences_def distinct_map)
qed

lemma ranges_union:
  fixes a :: "int list"
  assumes "sorted a" and "k < length a"
  shows "(\<Union>i<k. {a ! i + 1..<a ! Suc i + 1}) = {a ! 0 + 1..<a ! k + 1}"
  using assms(2)
proof (induction k)
  case 0
  then show ?case by simp
next
  case (Suc k)
  then have IH: "(\<Union>i<k. {a ! i + 1..<a ! Suc i + 1}) = {a ! 0 + 1..<a ! k + 1}"
    by simp
  have 1: "a ! 0 \<le> a ! k"
    using sorted_nth_mono [OF assms(1), of 0 k] Suc.prems by simp
  have 2: "a ! k \<le> a ! Suc k"
    using sorted_nth_mono [OF assms(1), of k "Suc k"] Suc.prems by simp
  have "(\<Union>i<Suc k. {a ! i + 1..<a ! Suc i + 1})
          = (\<Union>i<k. {a ! i + 1..<a ! Suc i + 1}) \<union> {a ! k + 1..<a ! Suc k + 1}"
    by (simp add: lessThan_Suc Un_commute)
  also have "\<dots> = {a ! 0 + 1..<a ! k + 1} \<union> {a ! k + 1..<a ! Suc k + 1}"
    unfolding IH ..
  also have "\<dots> = {a ! 0 + 1..<a ! Suc k + 1}"
    using 1 2 by auto
  finally show ?case .
qed

text \<open>
  C7. For a sequence of at least one point and break indexes among its positions, the
  ranges of \<open>getGroupingIndexes\<close> are not empty, start at 0, end at the length, each
  starts where the one before ends, are sorted and pairwise disjoint, and together cover
  exactly the positions of the sequence.
\<close>

theorem subgroups_partition:
  assumes n: "1 \<le> length (a_keys (limitInputArgs d))"
    and split: "set (case splitIndexes of None \<Rightarrow> [] | Some s \<Rightarrow> s)
                  \<subseteq> {0..<int (length (a_keys (limitInputArgs d)))}"
    and grouping: "set (groupingIndexes d) \<subseteq> {0..<int (length (a_keys (limitInputArgs d)))}"
  shows "getGroupingIndexes d splitIndexes \<noteq> []
    \<and> fst (hd (getGroupingIndexes d splitIndexes)) = 0
    \<and> snd (last (getGroupingIndexes d splitIndexes)) = int (length (a_keys (limitInputArgs d)))
    \<and> (\<forall>i. Suc i < length (getGroupingIndexes d splitIndexes) \<longrightarrow>
          snd (getGroupingIndexes d splitIndexes ! i)
            = fst (getGroupingIndexes d splitIndexes ! Suc i))
    \<and> (\<forall>r\<in>set (getGroupingIndexes d splitIndexes). fst r < snd r)
    \<and> sorted (map fst (getGroupingIndexes d splitIndexes))
    \<and> (\<forall>i j. i < j \<and> j < length (getGroupingIndexes d splitIndexes) \<longrightarrow>
          {fst (getGroupingIndexes d splitIndexes ! i)..<snd (getGroupingIndexes d splitIndexes ! i)}
          \<inter> {fst (getGroupingIndexes d splitIndexes ! j)..<snd (getGroupingIndexes d splitIndexes ! j)}
            = {})
    \<and> (\<Union>r\<in>set (getGroupingIndexes d splitIndexes). {fst r..<snd r})
          = {0..<int (length (a_keys (limitInputArgs d)))}"
proof -
  define n where "n = int (length (a_keys (limitInputArgs d)))"
  define a where "a = allIndexes_of d splitIndexes"
  define rs where "rs = getGroupingIndexes d splitIndexes"
  have n1: "1 \<le> n"
    using n by (simp add: n_def)
  have sorted: "sorted a" and distinct: "distinct a"
    by (simp_all add: a_def allIndexes_of_def distinct_first_occurrences)
  have set_a: "set a = insert (- 1) (insert (n - 1)
      (set (case splitIndexes of None \<Rightarrow> [] | Some s \<Rightarrow> s) \<union> set (groupingIndexes d)))"
    by (auto simp: a_def allIndexes_of_def set_first_occurrences n_def)
  have bounds: "- 1 \<le> v \<and> v \<le> n - 1" if "v \<in> set a" for v
    using that split grouping n1 unfolding set_a n_def by auto
  have strict: "a ! i < a ! j" if "i < j" "j < length a" for i j
    using that sorted distinct
    by (metis (no_types) less_trans nat_less_le nth_eq_iff_index_eq order_less_le
        sorted_nth_mono)
  have len2: "2 \<le> length a"
  proof -
    have "- 1 \<in> set a" "n - 1 \<in> set a" "- 1 \<noteq> n - 1"
      using n1 by (auto simp: set_a)
    then have "2 \<le> card (set a)"
      by (metis card_2_iff' card_mono finite_set insert_subset empty_subsetI
          card_2_iff subsetI insertE singletonD)
    also have "\<dots> \<le> length a" by (rule card_length)
    finally show ?thesis .
  qed
  have first: "a ! 0 = - 1"
  proof -
    obtain k where k: "k < length a" "a ! k = - 1"
      using set_a by (metis in_set_conv_nth insertI1)
    have "a ! 0 \<le> a ! k"
      using sorted_nth_mono [OF sorted, of 0 k] k(1) by simp
    moreover have "0 < length a" using len2 by linarith
    then have "a ! 0 \<in> set a" by (rule nth_mem)
    then have "- 1 \<le> a ! 0" using bounds by blast
    ultimately show ?thesis using k by simp
  qed
  have last_a: "a ! (length a - 1) = n - 1"
  proof -
    obtain k where k: "k < length a" "a ! k = n - 1"
      using set_a by (metis in_set_conv_nth insertI1 insertI2)
    have "a ! k \<le> a ! (length a - 1)"
      using sorted_nth_mono [OF sorted, of k "length a - 1"] k(1) by simp
    moreover have "length a - 1 < length a" using len2 by linarith
    then have "a ! (length a - 1) \<in> set a" by (rule nth_mem)
    then have "a ! (length a - 1) \<le> n - 1" using bounds by blast
    ultimately show ?thesis using k by simp
  qed
  have rs: "rs = map (\<lambda>i. (a ! i + 1, a ! (i + 1) + 1)) [0..<length a - 1]"
    by (simp add: rs_def getGroupingIndexes_def a_def Let_def)
  have len: "length rs = length a - 1"
    by (simp add: rs)
  have nth: "rs ! i = (a ! i + 1, a ! (i + 1) + 1)" if "i < length a - 1" for i
    using that by (simp add: rs)
  have c1: "rs \<noteq> []"
    using len len2 by auto
  have c2: "fst (hd rs) = 0"
    using c1 nth [of 0] len len2 first by (simp add: hd_conv_nth)
  have c3: "snd (last rs) = n"
    using c1 nth [of "length a - 2"] len len2 last_a
    by (simp add: last_conv_nth Suc_diff_Suc numeral_2_eq_2)
  have c4: "\<forall>i. Suc i < length rs \<longrightarrow> snd (rs ! i) = fst (rs ! Suc i)"
    using len by (auto simp: nth)
  have c5: "\<forall>r\<in>set rs. fst r < snd r"
  proof
    fix r assume "r \<in> set rs"
    then obtain i where "i < length a - 1" "r = (a ! i + 1, a ! (i + 1) + 1)"
      by (auto simp: rs)
    moreover from this have "a ! i < a ! Suc i"
      by (intro strict) auto
    ultimately show "fst r < snd r"
      by simp
  qed
  have c6: "sorted (map fst rs)"
    unfolding sorted_iff_nth_mono
  proof (intro allI impI)
    fix i j assume "i \<le> j" "j < length (map fst rs)"
    then have "i < length a - 1" "j < length a - 1" "a ! i \<le> a ! j"
      using len sorted by (auto intro: sorted_nth_mono)
    then show "map fst rs ! i \<le> map fst rs ! j"
      using len by (simp add: nth)
  qed
  have c7: "\<forall>i j. i < j \<and> j < length rs \<longrightarrow>
      {fst (rs ! i)..<snd (rs ! i)} \<inter> {fst (rs ! j)..<snd (rs ! j)} = {}"
  proof (intro allI impI)
    fix i j assume ij: "i < j \<and> j < length rs"
    then have "a ! (i + 1) \<le> a ! j"
      using sorted len by (auto intro: sorted_nth_mono)
    then show "{fst (rs ! i)..<snd (rs ! i)} \<inter> {fst (rs ! j)..<snd (rs ! j)} = {}"
      using ij len by (auto simp: nth)
  qed
  have "(\<Union>r\<in>set rs. {fst r..<snd r}) = (\<Union>i<length a - 1. {a ! i + 1..<a ! Suc i + 1})"
    by (auto simp: rs)
  also have "\<dots> = {a ! 0 + 1..<a ! (length a - 1) + 1}"
    using sorted len2 by (intro ranges_union) auto
  also have "\<dots> = {0..<n}"
    unfolding first last_a by simp
  finally have c8: "(\<Union>r\<in>set rs. {fst r..<snd r}) = {0..<n}" .
  show ?thesis
    using c1 c2 c3 c4 c5 c6 c7 c8 unfolding rs_def n_def by blast
qed

lemma example_ranges: "getGroupingIndexes example_data (Some [1, 5]) = [(0, 2), (2, 4), (4, 6)]"
  by code_simp

theorem subgroups_partition_witness:
  "1 \<le> length (a_keys (limitInputArgs example_data))
   \<and> set [1, 5] \<subseteq> {0..<int (length (a_keys (limitInputArgs example_data)))}
   \<and> set (groupingIndexes example_data) \<subseteq> {0..<int (length (a_keys (limitInputArgs example_data)))}
   \<and> getGroupingIndexes example_data (Some [1, 5]) = [(0, 2), (2, 4), (4, 6)]
   \<and> (\<Union>r\<in>set (getGroupingIndexes example_data (Some [1, 5])). {fst r..<snd r}) = {0..<6}"
proof -
  have 1: "1 \<le> length (a_keys (limitInputArgs example_data))"
    by (simp add: example_data_def)
  have 2: "set (case Some [1, 5] of None \<Rightarrow> [] | Some s \<Rightarrow> s)
             \<subseteq> {0..<int (length (a_keys (limitInputArgs example_data)))}"
    by (simp add: example_data_def)
  have 3: "set (groupingIndexes example_data)
             \<subseteq> {0..<int (length (a_keys (limitInputArgs example_data)))}"
    by (simp add: example_data_def)
  have 4: "int (length (a_keys (limitInputArgs example_data))) = 6"
    by (simp add: example_data_def)
  from subgroups_partition [OF 1 2 3] 4
  have "(\<Union>r\<in>set (getGroupingIndexes example_data (Some [1, 5])). {fst r..<snd r}) = {0..<6}"
    by simp
  with 1 2 3 example_ranges show ?thesis by simp
qed

subsection \<open>A cycle that fails validation\<close>

lemma update_single_invalid:
  assumes "status (validationStatus (extractInputData c (this_inputSettings vm))) \<noteq> 0"
  shows "update_single c css vm =
     (vm\<lparr>this_showGrouped := False, this_inputDataGrouped := None,
         this_groupStartEndIndexesGrouped := None, this_controlLimitsGrouped := None,
         this_splitIndexes := split_indexes c,
         this_inputData := Some (extractInputData c (this_inputSettings vm))\<rparr>, None)"
  using assms by (simp add: update_single_def Let_def)

text \<open>
  C8 (as the code has it). In a cycle that reads the data, without indicator columns,
  whose extracted input fails validation, \<open>update\<close> returns a result with status false
  (carrying the validation error when the settings and the data view are in order). The
  control limits, the outlier flags, the plot points, the grouped lines and the subgroup
  ranges of the view model are what they were before the call, and so are the grouped
  outlier flags, the grouped plot points, the previous data state and the last change
  flags. The call is not without effect on earlier results, though: once the settings
  and the data view have passed their checks it stores the new input and split indexes,
  leaves the grouped mode, and sets the grouped inputs, the grouped ranges and the grouped
  control limits to \<open>null\<close>. When one of the two checks fails, none of these is touched.
\<close>

theorem update_validation_failure:
  assumes "\<not> has_indicator c"
    and "options_type c = 2 \<or> this_firstRun vm"
    and "status (validationStatus
           (extractInputData c (settings_update c (this_inputSettings vm)))) \<noteq> 0"
  shows "(\<exists>res. snd (update c vm) = Inr res \<and> \<not> v_status res)
    \<and> (settings_error c (settings_update c (this_inputSettings vm)) = []
         \<and> validateDataView c (settings_update c (this_inputSettings vm)) = ''valid''
         \<longrightarrow> snd (update c vm)
               = Inr (failure (error (validationStatus
                   (extractInputData c (settings_update c (this_inputSettings vm)))))))
    \<and> this_controlLimits (fst (update c vm)) = this_controlLimits vm
    \<and> this_outliers (fst (update c vm)) = this_outliers vm
    \<and> this_plotPoints (fst (update c vm)) = this_plotPoints vm
    \<and> this_groupedLines (fst (update c vm)) = this_groupedLines vm
    \<and> this_groupStartEndIndexes (fst (update c vm)) = this_groupStartEndIndexes vm
    \<and> this_outliersGrouped (fst (update c vm)) = this_outliersGrouped vm
    \<and> this_plotPointsGrouped (fst (update c vm)) = this_plotPointsGrouped vm
    \<and> this_prevDataState (fst (update c vm)) = this_prevDataState vm
    \<and> this_lastChangeFlags (fst (update c vm)) = this_lastChangeFlags vm
    \<and> (settings_error c (settings_update c (this_inputSettings vm)) = []
         \<and> validateDataView c (settings_update c (this_inputSettings vm)) = ''valid''
         \<longrightarrow> this_inputData (fst (update c vm))
               = Some (extractInputData c (settings_update c (this_inputSettings vm)))
             \<and> this_splitIndexes (fst (update c vm)) = split_indexes c
             \<and> this_showGrouped (fst (update c vm)) = False
             \<and> this_inputDataGrouped (fst (update c vm)) = None
             \<and> this_groupStartEndIndexesGrouped (fst (update c vm)) = None
             \<and> this_controlLimitsGrouped (fst (update c vm)) = None
             \<and> this_firstRun (fst (update c vm)) = False
             \<and> this_prevSettingsState (fst (update c vm))
                 = Some (createSettingsState c (settings_update c (this_inputSettings vm))))
    \<and> (\<not> (settings_error c (settings_update c (this_inputSettings vm)) = []
            \<and> validateDataView c (settings_update c (this_inputSettings vm)) = ''valid'')
         \<longrightarrow> this_inputData (fst (update c vm)) = this_inputData vm
             \<and> this_splitIndexes (fst (update c vm)) = this_splitIndexes vm
             \<and> this_showGrouped (fst (update c vm)) = this_showGrouped vm
             \<and> this_inputDataGrouped (fst (update c vm)) = this_inputDataGrouped vm
             \<and> this_groupStartEndIndexesGrouped (fst (update c vm))
                 = this_groupStartEndIndexesGrouped vm
             \<and> this_controlLimitsGrouped (fst (update c vm)) = this_controlLimitsGrouped vm
             \<and> this_firstRun (fst (update c vm)) = this_firstRun vm
             \<and> this_prevSettingsState (fst (update c vm)) = this_prevSettingsState vm)"
proof -
  define st where "st = settings_update c (this_inputSettings vm)"
  define vm2 where "vm2 = vm\<lparr>this_svgWidth := viewport_width c,
    this_svgHeight := viewport_height c, this_inputSettings := st\<rparr>"
  have st2: "this_inputSettings vm2 = st"
    by (simp add: vm2_def)
  have inv: "status (validationStatus (extractInputData c (this_inputSettings vm2))) \<noteq> 0"
    using assms(3) by (simp add: st2 st_def)
  note single = update_single_invalid [OF inv]
  consider (settings) "settings_error c st \<noteq> []"
    | (dataview) "settings_error c st = []" "validateDataView c st \<noteq> ''valid''"
    | (data) "settings_error c st = []" "validateDataView c st = ''valid''"
    by blast
  then show ?thesis
  proof cases
    case settings
    then have "update c vm
        = (vm2, Inr ((failure (settings_error c st))\<lparr>v_type := Some ''settings''\<rparr>))"
      using assms(2) by (auto simp: update_def Let_def vm2_def st_def)
    then show ?thesis
      using settings by (simp add: vm2_def failure_def st_def)
  next
    case dataview
    then have "update c vm = (vm2, Inr (failure (validateDataView c st)))"
      using assms(2) by (auto simp: update_def Let_def vm2_def st_def)
    then show ?thesis
      using dataview by (simp add: vm2_def failure_def st_def)
  next
    case data
    then have "update c vm
        = (vm2\<lparr>this_showGrouped := False, this_inputDataGrouped := None,
               this_groupStartEndIndexesGrouped := None, this_controlLimitsGrouped := None,
               this_splitIndexes := split_indexes c,
               this_inputData := Some (extractInputData c st),
               this_prevSettingsState := Some (createSettingsState c st),
               this_firstRun := False\<rparr>,
           Inr (failure (error (validationStatus (extractInputData c st)))))"
      using assms(1,2) inv
      by (auto simp: update_def Let_def single validation_result_def st2
          simp flip: vm2_def st_def)
    then show ?thesis
      using data by (simp add: vm2_def failure_def st_def)
  qed
qed

lemma failing_cycle_facts:
  "\<not> has_indicator failing_cycle"
  "options_type failing_cycle = 2"
  "settings_update failing_cycle st = st"
  "extractInputData failing_cycle st = failing_data"
  "settings_error failing_cycle st = []"
  "validateDataView failing_cycle st = ''valid''"
  "split_indexes failing_cycle = []"
  by (simp_all add: failing_cycle_def)

text \<open>
  A failing cycle on a view model that holds the results of an earlier cycle: the result
  carries the validation error, the limits, flags and plot points stay, the input is
  replaced.
\<close>

theorem update_validation_failure_witness:
  "\<not> has_indicator failing_cycle \<and> options_type failing_cycle = 2
   \<and> status (validationStatus (extractInputData failing_cycle
         (settings_update failing_cycle (this_inputSettings retained_view)))) \<noteq> 0
   \<and> settings_error failing_cycle
         (settings_update failing_cycle (this_inputSettings retained_view)) = []
   \<and> validateDataView failing_cycle
         (settings_update failing_cycle (this_inputSettings retained_view)) = ''valid''
   \<and> snd (update failing_cycle retained_view) = Inr (failure ''No valid data'')
   \<and> this_controlLimits (fst (update failing_cycle retained_view)) = Some retained_limits
   \<and> this_outliers (fst (update failing_cycle retained_view)) = Some retained_outliers
   \<and> this_plotPoints (fst (update failing_cycle retained_view)) = [0, 1]
   \<and> this_inputData (fst (update failing_cycle retained_view)) = Some failing_data"
proof -
  have 1: "\<not> has_indicator failing_cycle"
    by (simp add: failing_cycle_facts)
  have 2: "options_type failing_cycle = 2 \<or> this_firstRun retained_view"
    by (simp add: failing_cycle_facts)
  have 3: "status (validationStatus (extractInputData failing_cycle
         (settings_update failing_cycle (this_inputSettings retained_view)))) \<noteq> 0"
    by (simp add: failing_cycle_facts failing_data_def)
  have 5: "error (validationStatus failing_data) = ''No valid data''"
    by (simp add: failing_data_def)
  have 6: "this_controlLimits retained_view = Some retained_limits"
    "this_outliers retained_view = Some retained_outliers"
    "this_plotPoints retained_view = [0, 1]"
    by (simp_all add: retained_view_def)
  show ?thesis
    using update_validation_failure [OF 1 2 3] 3
    by (simp add: failing_cycle_facts 5 6)
qed

text \<open>
  The claim as written (no partial overwrite of prior results) fails: on a view model
  left by a grouped cycle, the failing cycle sets the grouped control limits to \<open>null\<close>
  and leaves the grouped mode, while the grouped outlier flags and plot points stay.
\<close>

theorem update_validation_failure_counterexample:
  "snd (update failing_cycle grouped_view) = Inr (failure ''No valid data'')
   \<and> this_controlLimitsGrouped grouped_view = Some [Some retained_limits]
   \<and> this_controlLimitsGrouped (fst (update failing_cycle grouped_view)) = None
   \<and> this_outliersGrouped (fst (update failing_cycle grouped_view))
       = Some [Some retained_outliers]
   \<and> this_plotPointsGrouped (fst (update failing_cycle grouped_view)) = [0]
   \<and> this_showGrouped grouped_view
   \<and> this_showGrouped (fst (update failing_cycle grouped_view)) = False
   \<and> this_inputData grouped_view = None
   \<and> this_inputData (fst (update failing_cycle grouped_view)) = Some failing_data"
proof -
  have inv: "status (validationStatus
      (extractInputData failing_cycle (this_inputSettings (grouped_view
         \<lparr>this_svgWidth := viewport_width failing_cycle,
          this_svgHeight := viewport_height failing_cycle,
          this_inputSettings := ()\<rparr>)))) \<noteq> 0"
    by (simp add: failing_cycle_facts failing_data_def)
  have "update failing_cycle grouped_view
      = (grouped_view\<lparr>this_svgWidth := viewport_width failing_cycle,
            this_svgHeight := viewport_height failing_cycle,
            this_inputSettings := (),
            this_showGrouped := False, this_inputDataGrouped := None,
            this_groupStartEndIndexesGrouped := None, this_controlLimitsGrouped := None,
            this_splitIndexes := [], this_inputData := Some failing_data,
            this_prevSettingsState := Some (createSettingsState failing_cycle ()),
            this_firstRun := False\<rparr>,
         Inr (failure ''No valid data''))"
    by (simp add: update_def Let_def failing_cycle_facts update_single_invalid [OF inv]
        validation_result_def failing_data_def)
  then show ?thesis
    by (simp add: grouped_view_def)
qed

lemma update_single_exception:
  "update_single c css vm = (vm', Some e) \<Longrightarrow>
     this_firstRun vm' = this_firstRun vm \<and> this_prevDataState vm' = this_prevDataState vm"
  by (auto simp: update_single_def Let_def split: sum.splits prod.splits if_splits)

lemma update_grouped_exception:
  "update_grouped c css vm = (vm', Some e) \<Longrightarrow>
     this_firstRun vm' = this_firstRun vm \<and> this_prevDataState vm' = this_prevDataState vm"
  by (auto simp: update_grouped_def Let_def split: sum.splits)

lemma update_resize_exception:
  "update_resize c css vm = (vm', Some e) \<Longrightarrow>
     this_firstRun vm' = this_firstRun vm \<and> this_prevDataState vm' = this_prevDataState vm"
  by (auto simp: update_resize_def Let_def split: sum.splits)

text \<open>
  Across cycles a previous data state is kept only by a view model that is past its first
  run: the caller of \<open>computeChangeFlags\<close> never passes a previous data state together
  with \<open>isFirstRun\<close>.
\<close>

lemma update_first_run_invariant:
  assumes "this_prevDataState vm \<noteq> None \<longrightarrow> \<not> this_firstRun vm"
  shows "this_prevDataState (fst (update c vm)) \<noteq> None \<longrightarrow> \<not> this_firstRun (fst (update c vm))"
proof -
  define vm2 where "vm2 = (let vm1 = vm\<lparr>this_svgWidth := viewport_width c,
      this_svgHeight := viewport_height c\<rparr>
    in if options_type c = 2 \<or> this_firstRun vm1
       then vm1\<lparr>this_inputSettings := settings_update c (this_inputSettings vm1)\<rparr> else vm1)"
  define branch where "branch = (if options_type c = 2 \<or> this_firstRun vm then
      (if has_indicator c
       then update_grouped c (createSettingsState c (this_inputSettings vm2)) vm2
       else update_single c (createSettingsState c (this_inputSettings vm2)) vm2)
    else update_resize c (createSettingsState c (this_inputSettings vm2)) vm2)"
  have vm2: "this_firstRun vm2 = this_firstRun vm" "this_prevDataState vm2 = this_prevDataState vm"
    by (simp_all add: vm2_def Let_def)
  have u: "update c vm =
     (if settings_error c (this_inputSettings vm2) \<noteq> [] then
        (vm2, Inr ((failure (settings_error c (this_inputSettings vm2)))\<lparr>v_type := Some ''settings''\<rparr>))
      else if validateDataView c (this_inputSettings vm2) \<noteq> ''valid'' then
        (vm2, Inr (failure (validateDataView c (this_inputSettings vm2))))
      else case branch of
             (vm3, Some e) \<Rightarrow> (vm3, Inl e)
           | (vm3, None) \<Rightarrow>
               (vm3\<lparr>this_prevSettingsState := Some (createSettingsState c (this_inputSettings vm2)),
                      this_firstRun := False\<rparr>,
                validation_result
                  (vm3\<lparr>this_prevSettingsState := Some (createSettingsState c (this_inputSettings vm2)),
                        this_firstRun := False\<rparr>)))"
    by (simp add: update_def Let_def vm2_def branch_def)
  obtain vm3 r where b: "branch = (vm3, r)"
    by (cases branch) auto
  have exc: "this_firstRun vm3 = this_firstRun vm \<and> this_prevDataState vm3 = this_prevDataState vm"
    if "r = Some e" for e
    using b that vm2 update_single_exception update_grouped_exception update_resize_exception
    unfolding branch_def by (metis (no_types, lifting))
  show ?thesis
    unfolding u b using assms vm2 exc by (cases r) (auto split: if_splits)
qed

end
